theory Spec2Isabelle
  imports Main "HOL-Library.Word" "HOL-Library.AList"
begin

unbundle bit_operations_syntax

section \<open>JavaScript values\<close>

text \<open>
  A JavaScript string is a sequence of UTF-16 code units. String literals of the source
  are ASCII and are written \<open>js ''...''\<close>.
\<close>

type_synonym jschar = "16 word"
type_synonym jsstring = "jschar list"

definition js :: "string \<Rightarrow> jsstring" where
  "js s = map of_char s"

text \<open>
  The values \<open>JSON.parse\<close> produces. A number is represented by the string that
  \<open>Number.prototype.toString\<close> gives for it (\<open>-32601\<close>, \<open>0.5\<close>, \<open>1e+21\<close>), which determines
  the number up to the sign of zero: the program carries numbers, tests them for zero and
  prints them, and does nothing else with them. An object is the list of its own properties
  in insertion order, each key once. A value that may be \<open>undefined\<close> is a \<open>json option\<close>, \<open>None\<close> being
  \<open>undefined\<close>.
\<close>

datatype json =
    JNull
  | JBool bool
  | JNum jsstring
  | JStr jsstring
  | JArr "json list"
  | JObj "(jsstring \<times> json) list"

text \<open>
  What is thrown: \<open>new Error(message)\<close>; the TypeError of \<open>in\<close> applied to a primitive; the
  TypeError of a conversion to string that finds no primitive ("Cannot convert object to
  primitive value"); the error of a schema.
\<close>

datatype js_error = Error jsstring | TypeError_in | TypeError_primitive | ZodError

text \<open>A promise is pending until its \<open>resolve\<close> or \<open>reject\<close> is called for the first time.\<close>

datatype promise = Pending | Fulfilled "json option" | Rejected js_error

text \<open>\<open>k in v\<close>: a TypeError on a primitive. The source applies it to the keys
  \<open>id\<close>, \<open>result\<close>, \<open>error\<close> and \<open>method\<close> only, none of which an array or a prototype has.\<close>

fun has_key :: "jsstring \<Rightarrow> json \<Rightarrow> js_error + bool" where
  "has_key k (JObj kvs) = Inr (k \<in> fst ` set kvs)"
| "has_key k (JArr xs) = Inr False"
| "has_key k v = Inl TypeError_in"

text \<open>\<open>v.k\<close> on a value that is neither \<open>null\<close> nor \<open>undefined\<close>, for a key that only an
  object can own (the source reads \<open>id\<close>, \<open>method\<close>, \<open>params\<close>, \<open>result\<close>, \<open>error\<close>, \<open>code\<close>,
  \<open>message\<close> and \<open>tools\<close>).\<close>

fun get :: "json \<Rightarrow> jsstring \<Rightarrow> json option" where
  "get (JObj kvs) k = map_of kvs k"
| "get v k = None"

text \<open>\<open>v?.k\<close>\<close>

fun opt_get :: "json option \<Rightarrow> jsstring \<Rightarrow> json option" where
  "opt_get None k = None"
| "opt_get (Some JNull) k = None"
| "opt_get (Some v) k = get v k"

text \<open>\<open>v ?? d\<close>\<close>

fun nullish :: "json option \<Rightarrow> json \<Rightarrow> json" where
  "nullish None d = d"
| "nullish (Some JNull) d = d"
| "nullish (Some v) d = v"

text \<open>The truthiness of a value in a condition.\<close>

fun truthy :: "json option \<Rightarrow> bool" where
  "truthy None = False"
| "truthy (Some JNull) = False"
| "truthy (Some (JBool b)) = b"
| "truthy (Some (JNum n)) = (n \<noteq> js ''0'')"
| "truthy (Some (JStr s)) = (s \<noteq> [])"
| "truthy (Some v) = True"

subsection \<open>Conversion to string, as a template literal does it\<close>

fun join_comma :: "jsstring list \<Rightarrow> jsstring" where
  "join_comma [] = []"
| "join_comma [s] = s"
| "join_comma (s # t # ss) = s @ js '','' @ join_comma (t # ss)"

text \<open>
  \<open>ToString\<close> of a value. An array is joined with commas, \<open>null\<close> elements giving the empty
  string. An object is converted by its \<open>toString\<close>: \<open>Object.prototype.toString\<close> unless the
  object owns a property of that name, whose value, coming from \<open>JSON.parse\<close>, is not
  callable; then the conversion finds no primitive and throws.
\<close>

fun to_string :: "json \<Rightarrow> js_error + jsstring"
  and to_strings :: "json list \<Rightarrow> js_error + jsstring list" where
  "to_string JNull = Inr (js ''null'')"
| "to_string (JBool b) = Inr (js (if b then ''true'' else ''false''))"
| "to_string (JNum n) = Inr n"
| "to_string (JStr s) = Inr s"
| "to_string (JArr xs) =
     (case to_strings xs of Inl e \<Rightarrow> Inl e | Inr ss \<Rightarrow> Inr (join_comma ss))"
| "to_string (JObj kvs) =
     (if js ''toString'' \<in> fst ` set kvs then Inl TypeError_primitive
      else Inr (js ''[object Object]''))"
| "to_strings [] = Inr []"
| "to_strings (x # xs) =
     (case (if x = JNull then Inr [] else to_string x) of
        Inl e \<Rightarrow> Inl e
      | Inr s \<Rightarrow> (case to_strings xs of Inl e \<Rightarrow> Inl e | Inr ss \<Rightarrow> Inr (s # ss)))"

text \<open>\<open>`${v}`\<close>\<close>

definition template :: "json option \<Rightarrow> js_error + jsstring" where
  "template v = (case v of None \<Rightarrow> Inr (js ''undefined'') | Some x \<Rightarrow> to_string x)"

subsection \<open>Clock readings\<close>

definition digit_char :: "nat \<Rightarrow> char" where
  "digit_char d = char_of (48 + d)"

function digits :: "nat \<Rightarrow> string" where
  "digits n = (if n < 10 then [digit_char n] else digits (n div 10) @ [digit_char (n mod 10)])"
  by pat_completeness auto
termination
  by (relation "measure id") auto

declare digits.simps [simp del]

text \<open>
  \<open>`${Date.now()}`\<close>. A clock reading is a time value, an integer of absolute value at most
  \<open>8.64e15\<close>, and for an integer below \<open>1e21\<close> \<open>Number.prototype.toString\<close> gives the decimal
  digits. The function is applied to clock readings only.
\<close>

definition clock_toString :: "int \<Rightarrow> jsstring" where
  "clock_toString n = js (if n < 0 then CHR ''-'' # digits (nat (- n)) else digits (nat n))"

text \<open>An object literal as \<open>JSON.stringify\<close> writes it: a property whose value is
  \<open>undefined\<close> is left out.\<close>

definition object :: "(jsstring \<times> json option) list \<Rightarrow> json" where
  "object kvs = JObj (List.map_filter (\<lambda>(k, v). map_option (Pair k) v) kvs)"

text \<open>\<open>{...a, ...b}\<close>: the properties of \<open>b\<close> are set, in order, on a copy of \<open>a\<close>.\<close>

definition spread :: "('k \<times> 'v) list \<Rightarrow> ('k \<times> 'v) list \<Rightarrow> ('k \<times> 'v) list" where
  "spread a b = fold (\<lambda>(k, v). AList.update k v) b a"

subsection \<open>Decoding a chunk of bytes\<close>

text \<open>
  \<open>chunk.toString('utf8')\<close> decodes the bytes of one chunk on their own: a malformed or
  truncated sequence becomes U+FFFD, and a code point above U+FFFF becomes a surrogate
  pair. The state of the decoder after a lead byte is the code point so far, the number of
  continuation bytes still needed, and the bounds of the next byte.
\<close>

type_synonym byte = "8 word"
type_synonym utf8_state = "nat \<times> nat \<times> nat \<times> nat"

definition utf16 :: "nat \<Rightarrow> jsstring" where
  "utf16 c = (if c < 0x10000 then [of_nat c]
              else [of_nat (0xD800 + (c - 0x10000) div 0x400),
                    of_nat (0xDC00 + (c - 0x10000) mod 0x400)])"

definition utf8_lead :: "nat \<Rightarrow> jsstring \<times> utf8_state option" where
  "utf8_lead b =
    (if b < 0x80 then ([of_nat b], None)
     else if 0xC2 \<le> b \<and> b \<le> 0xDF then ([], Some (b mod 32, 1, 0x80, 0xBF))
     else if 0xE0 \<le> b \<and> b \<le> 0xEF then
       ([], Some (b mod 16, 2, if b = 0xE0 then 0xA0 else 0x80, if b = 0xED then 0x9F else 0xBF))
     else if 0xF0 \<le> b \<and> b \<le> 0xF4 then
       ([], Some (b mod 8, 3, if b = 0xF0 then 0x90 else 0x80, if b = 0xF4 then 0x8F else 0xBF))
     else ([0xFFFD], None))"

fun utf8_decode :: "utf8_state option \<Rightarrow> nat list \<Rightarrow> jsstring" where
  "utf8_decode None [] = []"
| "utf8_decode (Some s) [] = [0xFFFD]"
| "utf8_decode None (b # bs) = (case utf8_lead b of (out, s) \<Rightarrow> out @ utf8_decode s bs)"
| "utf8_decode (Some (c, n, lo, hi)) (b # bs) =
    (if lo \<le> b \<and> b \<le> hi then
       (if n = 1 then utf16 (c * 64 + b mod 64) @ utf8_decode None bs
        else utf8_decode (Some (c * 64 + b mod 64, n - 1, 0x80, 0xBF)) bs)
     else 0xFFFD # (case utf8_lead b of (out, s) \<Rightarrow> out @ utf8_decode s bs))"

definition utf8_toString :: "byte list \<Rightarrow> jsstring" where
  "utf8_toString chunk = utf8_decode None (map unat chunk)"

text \<open>The bytes of an ASCII text.\<close>

definition ascii :: "string \<Rightarrow> byte list" where
  "ascii s = map of_char s"

subsection \<open>Lines\<close>

text \<open>\<open>s.split(/\n/)\<close>: never empty; the last piece is what follows the last newline.\<close>

fun split_nl :: "jsstring \<Rightarrow> jsstring list" where
  "split_nl [] = [[]]"
| "split_nl (c # cs) =
    (if c = 0x0A then [] # split_nl cs
     else (case split_nl cs of l # ls \<Rightarrow> (c # l) # ls | [] \<Rightarrow> [[c]]))"

text \<open>The characters \<open>trim()\<close> removes: white space and line terminators.\<close>

definition js_whitespace :: "jschar \<Rightarrow> bool" where
  "js_whitespace c \<longleftrightarrow>
     c \<in> {0x09, 0x0A, 0x0B, 0x0C, 0x0D, 0x20, 0xA0, 0x1680, 0x2028, 0x2029, 0x202F, 0x205F,
          0x3000, 0xFEFF} \<or> (0x2000 \<le> c \<and> c \<le> 0x200A)"

text \<open>\<open>!raw.trim()\<close>\<close>

definition blank :: "jsstring \<Rightarrow> bool" where
  "blank raw = list_all js_whitespace raw"

section \<open>The protocol client (stdioClient.ts)\<close>

record options =
  command :: jsstring
  args :: "jsstring list option"
  env :: "(jsstring \<times> jsstring option) list option"
  workingDirectory :: "jsstring option"
  initCapabilities :: "(jsstring \<times> json option) list option"
  onPrompt :: bool
  onResourceRequest :: bool

text \<open>What the program asks of its host: \<open>fs.existsSync\<close>, \<open>fs.mkdirSync\<close> (the error it
  throws, if any) and \<open>process.env\<close>.\<close>

record host =
  existsSync :: "jsstring \<Rightarrow> bool"
  mkdirSync :: "jsstring \<Rightarrow> js_error option"
  process_env :: "(jsstring \<times> jsstring option) list"

text \<open>One call of \<open>child_process.spawn\<close>.\<close>

record process =
  proc_command :: jsstring
  proc_args :: "jsstring list"
  proc_cwd :: "jsstring option"
  proc_env :: "(jsstring \<times> jsstring option) list"

text \<open>The closure stored in \<open>pending\<close>: the promise whose \<open>resolve\<close> and \<open>reject\<close> it
  holds, and the optional schema, whose \<open>parse\<close> returns a value or throws.\<close>

record pending_call =
  promise_of :: nat
  schema :: "(json option \<Rightarrow> js_error + json option) option"

datatype callback = OnPrompt | OnResourceRequest

text \<open>
  The fields of the class, then what the client has done to the outside: the processes it
  has spawned (\<open>child\<close> is an index into them), the objects it has serialised and written,
  one line each, to the standard input of a child, the promises it has created, and the
  calls of the registered callbacks, each with the id and the params of the request.
\<close>

record client =
  opts :: options
  child :: "nat option"
  pending :: "jsstring \<rightharpoonup> pending_call"
  buffer :: jsstring
  tools :: json
  initialized :: bool
  spawned :: "process list"
  stdin :: "(nat \<times> json) list"
  promises :: "promise list"
  invoked :: "(callback \<times> json option \<times> json option) list"

definition StdioMcpClient :: "options \<Rightarrow> client" where
  "StdioMcpClient opt =
    \<lparr>opts = opt, child = None, pending = Map.empty, buffer = [], tools = JArr [],
     initialized = False, spawned = [], stdin = [], promises = [], invoked = []\<rparr>"

definition start :: "host \<Rightarrow> client \<Rightarrow> js_error + client" where
  "start h st =
    (if child st \<noteq> None then Inr st
     else if \<not> existsSync h (command (opts st)) then
       Inl (Error (js ''MCP server binary not found at path: '' @ command (opts st)))
     else Inr (st\<lparr>child := Some (length (spawned st)),
                  spawned := spawned st @
                    [\<lparr>proc_command = command (opts st),
                      proc_args = (case args (opts st) of None \<Rightarrow> [] | Some a \<Rightarrow> a),
                      proc_cwd = workingDirectory (opts st),
                      proc_env = spread (process_env h)
                                   (case env (opts st) of None \<Rightarrow> [] | Some e \<Rightarrow> e)\<rparr>]\<rparr>))"

text \<open>The \<open>exit\<close> event of the child.\<close>

definition child_exit :: "client \<Rightarrow> client" where
  "child_exit st = st\<lparr>child := None\<rparr>"

text \<open>Calling \<open>resolve\<close> or \<open>reject\<close> of promise \<open>p\<close>.\<close>

definition settle :: "nat \<Rightarrow> promise \<Rightarrow> promise list \<Rightarrow> promise list" where
  "settle p v ps = (if p < length ps \<and> ps ! p = Pending then ps[p := v] else ps)"

definition sendResponse :: "client \<Rightarrow> json option \<Rightarrow> json option \<Rightarrow> json option \<Rightarrow> client" where
  "sendResponse st rid result error =
    (case child st of
       None \<Rightarrow> st
     | Some c \<Rightarrow>
         st\<lparr>stdin := stdin st @
           [(c, object [(js ''jsonrpc'', Some (JStr (js ''2.0''))), (js ''id'', rid),
                        (js ''result'', result), (js ''error'', error)])]\<rparr>)"

text \<open>
  \<open>handleServerRequest\<close> up to its first suspension: with a registered callback it calls
  the callback and waits; otherwise it answers at once. The template literal of the answer
  is evaluated inside the \<open>try\<close>: when it throws, the \<open>catch\<close> answers with the message of
  the TypeError.
\<close>

definition handleServerRequest :: "client \<Rightarrow> json \<Rightarrow> client" where
  "handleServerRequest st req =
    (if get req (js ''method'') = Some (JStr (js ''prompts/get'')) \<and> onPrompt (opts st) then
       st\<lparr>invoked := invoked st @ [(OnPrompt, get req (js ''id''), get req (js ''params''))]\<rparr>
     else if get req (js ''method'') = Some (JStr (js ''resources/read''))
             \<and> onResourceRequest (opts st) then
       st\<lparr>invoked := invoked st @
            [(OnResourceRequest, get req (js ''id''), get req (js ''params''))]\<rparr>
     else
       (case template (get req (js ''method'')) of
          Inr m \<Rightarrow>
            sendResponse st (get req (js ''id'')) None
              (Some (JObj [(js ''code'', JNum (js ''-32601'')),
                           (js ''message'', JStr (js ''Method not found: '' @ m))]))
        | Inl e \<Rightarrow>
            sendResponse st (get req (js ''id'')) None
              (Some (JObj [(js ''code'', JNum (js ''-32603'')),
                           (js ''message'',
                            JStr (js ''Cannot convert object to primitive value''))]))))"

text \<open>Its continuation when the callback's promise is fulfilled with \<open>result\<close>, and when it
  is rejected with an error whose \<open>message\<close> is given.\<close>

definition handleServerRequest_fulfilled :: "client \<Rightarrow> json option \<Rightarrow> json option \<Rightarrow> client" where
  "handleServerRequest_fulfilled st rid result = sendResponse st rid result None"

definition handleServerRequest_rejected :: "client \<Rightarrow> json option \<Rightarrow> jsstring \<Rightarrow> client" where
  "handleServerRequest_rejected st rid message =
     sendResponse st rid None
       (Some (JObj [(js ''code'', JNum (js ''-32603'')), (js ''message'', JStr message)]))"

text \<open>
  The closure \<open>sendRequest\<close> stores in \<open>pending\<close>, applied to a response: how it settles
  its promise, or what it throws. The template literal of the rejection is not guarded, so
  an exception of the conversion leaves the closure; an exception of \<open>schema.parse\<close> is caught
  and rejects the promise.
\<close>

definition handler :: "pending_call \<Rightarrow> json \<Rightarrow> js_error + promise" where
  "handler pc res =
    (case (if truthy (get res (js ''error'')) then get res (js ''error'') else None) of
       Some e \<Rightarrow>
         (case template (get e (js ''code'')) of
            Inl x \<Rightarrow> Inl x
          | Inr c \<Rightarrow>
              (case template (get e (js ''message'')) of
                 Inl x \<Rightarrow> Inl x
               | Inr m \<Rightarrow> Inr (Rejected (Error (c @ js '': '' @ m)))))
     | None \<Rightarrow>
         (case schema pc of
            Some parse \<Rightarrow>
              (case parse (get res (js ''result'')) of
                 Inl e \<Rightarrow> Inr (Rejected e)
               | Inr v \<Rightarrow> Inr (Fulfilled v))
          | None \<Rightarrow> Inr (Fulfilled (get res (js ''result'')))))"

text \<open>The body of the loop of \<open>processBuffer\<close> for one parsed message. The closure of a
  pending call is called after its entry has been deleted; what it throws leaves the loop.\<close>

definition dispatch :: "client \<Rightarrow> json \<Rightarrow> js_error + client" where
  "dispatch st msg =
    (case has_key (js ''id'') msg of
       Inl e \<Rightarrow> Inl e
     | Inr has_id \<Rightarrow>
         let reply = (has_key (js ''result'') msg = Inr True
                      \<or> has_key (js ''error'') msg = Inr True) in
         if has_id \<and> reply then
           (case get msg (js ''id'') of
              Some (JStr i) \<Rightarrow>
                (case pending st i of
                   Some pc \<Rightarrow>
                     (case handler pc msg of
                        Inl e \<Rightarrow> Inl e
                      | Inr outcome \<Rightarrow>
                          Inr (st\<lparr>pending := (pending st)(i := None),
                                  promises := settle (promise_of pc) outcome (promises st)\<rparr>))
                 | None \<Rightarrow> Inr st)
            | _ \<Rightarrow> Inr st)
         else if has_key (js ''method'') msg = Inr True \<and> \<not> reply then
           (if has_id then Inr (handleServerRequest st msg)
            else if get msg (js ''method'') = Some (JStr (js ''tools/list'')) then
              Inr (st\<lparr>tools := nullish (opt_get (get msg (js ''params'')) (js ''tools''))
                                        (JArr [])\<rparr>)
            else Inr st)
         else Inr st)"

text \<open>The loop of \<open>processBuffer\<close>; \<open>parse\<close> is \<open>JSON.parse\<close>, \<open>None\<close> when it throws. An
  exception of the body leaves the loop and the listener.\<close>

fun process_parts :: "(jsstring \<Rightarrow> json option) \<Rightarrow> client \<Rightarrow> jsstring list \<Rightarrow> js_error + client"
where
  "process_parts parse st [] = Inr st"
| "process_parts parse st (raw # rest) =
    (if blank raw then process_parts parse st rest
     else (case parse raw of
             None \<Rightarrow> process_parts parse st rest
           | Some msg \<Rightarrow>
               (case dispatch st msg of
                  Inl e \<Rightarrow> Inl e
                | Inr st' \<Rightarrow> process_parts parse st' rest)))"

definition processBuffer :: "(jsstring \<Rightarrow> json option) \<Rightarrow> client \<Rightarrow> js_error + client" where
  "processBuffer parse st =
    (let parts = split_nl (buffer st) in
     process_parts parse (st\<lparr>buffer := last parts\<rparr>) (butlast parts))"

text \<open>The \<open>data\<close> listener of the child's standard output.\<close>

definition on_data :: "(jsstring \<Rightarrow> json option) \<Rightarrow> client \<Rightarrow> byte list \<Rightarrow> js_error + client" where
  "on_data parse st chunk = processBuffer parse (st\<lparr>buffer := buffer st @ utf8_toString chunk\<rparr>)"

text \<open>The chunks the stream delivers, one \<open>data\<close> event each; an exception that leaves the
  listener is uncaught and ends the program.\<close>

fun on_data_all :: "(jsstring \<Rightarrow> json option) \<Rightarrow> client \<Rightarrow> byte list list \<Rightarrow> js_error + client"
where
  "on_data_all parse st [] = Inr st"
| "on_data_all parse st (chunk # chunks) =
    (case on_data parse st chunk of
       Inl e \<Rightarrow> Inl e
     | Inr st' \<Rightarrow> on_data_all parse st' chunks)"

text \<open>\<open>sendRequest\<close> with the id that \<open>uuid()\<close> returns; the result is the new promise.\<close>

definition sendRequest ::
  "client \<Rightarrow> jsstring \<Rightarrow> jsstring \<Rightarrow> json option
     \<Rightarrow> (json option \<Rightarrow> js_error + json option) option \<Rightarrow> client \<times> nat" where
  "sendRequest st uuid method params sch =
    (let p = length (promises st) in
     case child st of
       None \<Rightarrow>
         (st\<lparr>promises := promises st @ [Rejected (Error (js ''MCP process not started''))]\<rparr>, p)
     | Some c \<Rightarrow>
         (st\<lparr>promises := promises st @ [Pending],
             pending := (pending st)(uuid \<mapsto> \<lparr>promise_of = p, schema = sch\<rparr>),
             stdin := stdin st @
               [(c, object [(js ''jsonrpc'', Some (JStr (js ''2.0''))),
                            (js ''id'', Some (JStr uuid)),
                            (js ''method'', Some (JStr method)),
                            (js ''params'', params)])]\<rparr>, p))"

text \<open>
  \<open>initialize\<close> in its three synchronous parts. The first runs to the handshake request
  (\<open>None\<close>: already initialized, nothing to wait for); the second runs when the handshake
  promise is settled either way and sends \<open>tools/list\<close>; the third runs when promise \<open>p\<close> of
  \<open>tools/list\<close> is settled.
\<close>

definition capabilities :: "options \<Rightarrow> json" where
  "capabilities opt =
     object (AList.update (js ''resources'')
               (if onResourceRequest opt then Some (JObj [(js ''subscribe'', JBool False)])
                else None)
            (AList.update (js ''prompts'') (if onPrompt opt then Some (JObj []) else None)
               (case initCapabilities opt of None \<Rightarrow> [] | Some c \<Rightarrow> c)))"

definition initialize :: "host \<Rightarrow> jsstring \<Rightarrow> client \<Rightarrow> js_error + client \<times> nat option" where
  "initialize h uuid st =
    (if initialized st then Inr (st, None)
     else (case start h st of
             Inl e \<Rightarrow> Inl e
           | Inr st1 \<Rightarrow>
               (case sendRequest st1 uuid (js ''initialize'')
                       (Some (JObj [(js ''clientInfo'',
                                     JObj [(js ''name'', JStr (js ''mcp-admin-agent'')),
                                           (js ''version'', JStr (js ''0.1.0''))]),
                                    (js ''capabilities'', capabilities (opts st1))])) None of
                  (st2, p) \<Rightarrow> Inr (st2, Some p))))"

definition initialize_listTools :: "jsstring \<Rightarrow> client \<Rightarrow> client \<times> nat" where
  "initialize_listTools uuid st = sendRequest st uuid (js ''tools/list'') None None"

definition initialize_done :: "nat \<Rightarrow> client \<Rightarrow> client" where
  "initialize_done p st =
    (case (if p < length (promises st) then promises st ! p else Pending) of
       Fulfilled result \<Rightarrow>
         st\<lparr>tools := nullish (opt_get result (js ''tools'')) (JArr []), initialized := True\<rparr>
     | Rejected e \<Rightarrow> st\<lparr>initialized := True\<rparr>
     | Pending \<Rightarrow> st)"

definition listTools :: "client \<Rightarrow> json" where
  "listTools st = tools st"

definition callTool :: "client \<Rightarrow> jsstring \<Rightarrow> jsstring \<Rightarrow> json option \<Rightarrow> client \<times> nat" where
  "callTool st uuid name arguments =
     sendRequest st uuid (js ''tools/call'')
       (Some (object [(js ''name'', Some (JStr name)), (js ''arguments'', arguments)])) None"

text \<open>A response, as the loop of \<open>processBuffer\<close> recognises it.\<close>

definition is_response :: "json \<Rightarrow> bool" where
  "is_response msg \<longleftrightarrow> has_key (js ''id'') msg = Inr True \<and>
     (has_key (js ''result'') msg = Inr True \<or> has_key (js ''error'') msg = Inr True)"

text \<open>A request of the child and a notification, as the loop recognises them.\<close>

definition is_request :: "json \<Rightarrow> bool" where
  "is_request msg \<longleftrightarrow> has_key (js ''id'') msg = Inr True \<and> has_key (js ''method'') msg = Inr True
     \<and> \<not> (has_key (js ''result'') msg = Inr True \<or> has_key (js ''error'') msg = Inr True)"

definition is_notification :: "json \<Rightarrow> bool" where
  "is_notification msg \<longleftrightarrow> has_key (js ''id'') msg = Inr False
     \<and> has_key (js ''method'') msg = Inr True
     \<and> \<not> (has_key (js ''result'') msg = Inr True \<or> has_key (js ''error'') msg = Inr True)"



text \<open>
  The states of a client: it is constructed, and then its methods are called and its
  listeners run, in any order and with any arguments.
\<close>

inductive reachable :: "client \<Rightarrow> bool" where
  constructed: "reachable (StdioMcpClient opt)"
| started: "reachable st \<Longrightarrow> start h st = Inr st' \<Longrightarrow> reachable st'"
| exited: "reachable st \<Longrightarrow> reachable (child_exit st)"
| received: "reachable st \<Longrightarrow> on_data parse st chunk = Inr st' \<Longrightarrow> reachable st'"
| answered: "reachable st \<Longrightarrow> reachable (handleServerRequest_fulfilled st rid result)"
| failed: "reachable st \<Longrightarrow> reachable (handleServerRequest_rejected st rid message)"
| requested: "reachable st \<Longrightarrow> reachable (fst (sendRequest st uuid method params sch))"
| initializing: "reachable st \<Longrightarrow> initialize h uuid st = Inr (st', w) \<Longrightarrow> reachable st'"
| listing: "reachable st \<Longrightarrow> reachable (fst (initialize_listTools uuid st))"
| initialized: "reachable st \<Longrightarrow> reachable (initialize_done p st)"
| called: "reachable st \<Longrightarrow> reachable (fst (callTool st uuid name arguments))"

text \<open>
  What happens to a client between the first suspension of \<open>initialize()\<close> and its
  completion. Until then the client is known to that call alone, so only its listeners and
  the rest of \<open>initialize()\<close> run.
\<close>

inductive initialize_proceeds :: "client \<Rightarrow> client \<Rightarrow> bool" where
  suspended: "initialize_proceeds c c"
| data: "initialize_proceeds c c1 \<Longrightarrow> on_data parse c1 chunk = Inr c2 \<Longrightarrow> initialize_proceeds c c2"
| exit: "initialize_proceeds c c1 \<Longrightarrow> initialize_proceeds c (child_exit c1)"
| answer: "initialize_proceeds c c1
    \<Longrightarrow> initialize_proceeds c (handleServerRequest_fulfilled c1 rid result)"
| fail: "initialize_proceeds c c1
    \<Longrightarrow> initialize_proceeds c (handleServerRequest_rejected c1 rid message)"
| list_tools: "initialize_proceeds c c1
    \<Longrightarrow> initialize_proceeds c (fst (initialize_listTools uuid c1))"
| complete: "initialize_proceeds c c1 \<Longrightarrow> initialize_proceeds c (initialize_done p c1)"


section \<open>The session manager (sessionManager.ts)\<close>

datatype ready_state = CONNECTING | OPEN | CLOSING | CLOSED

record config =
  environmentId :: jsstring
  clientId :: jsstring
  region :: jsstring
  topLevelDomain :: jsstring

text \<open>An entry of \<open>promptResolvers\<close>: the promise whose \<open>resolve\<close> and \<open>reject\<close> it holds,
  and the handle of its timer.\<close>

record resolver =
  settles :: nat
  timeout :: nat

text \<open>A \<open>Map\<close> is an association list in insertion order (\<open>AList.update\<close> is \<open>set\<close>,
  \<open>AList.delete\<close> is \<open>delete\<close>, \<open>map_of\<close> is \<open>get\<close>), a \<open>Set\<close> of connections the list of
  its members in insertion order. A session is an object: \<open>obj\<close> is its identity, by which a
  closure that has captured it finds it again.\<close>

record session =
  sessionId :: jsstring
  mcpClient :: "client option"
  wsConnections :: "nat list"
  lastActivity :: int
  promptResolvers :: "(jsstring \<times> resolver) list"
  workDir :: jsstring
  pingoneConfig :: "config option"
  obj :: nat

text \<open>What a timer does when it fires: the prompt timer with the session object, the
  prompt id and the promise it has captured, or the timer of a login process.\<close>

datatype timer = PromptTimeout nat jsstring nat | LoginTimeout nat

text \<open>
  The fields of the class, then the number of session objects created so far (the next
  identity), and what the manager has done to the outside: the timers it has set (a handle
  is an index; \<open>None\<close> once cleared or fired), the promises of its prompt handler, the
  messages sent to connections, the connections it has closed, and the login processes it
  has spawned.
\<close>

record manager =
  sessions :: "(jsstring \<times> session) list"
  mcpOptions :: options
  cleanupInterval :: bool
  created :: nat
  timers :: "timer option list"
  prompts :: "promise list"
  ws_sent :: "(nat \<times> json) list"
  ws_closed :: "nat list"
  logins :: "process list"

definition IDLE_TIMEOUT :: int where
  "IDLE_TIMEOUT = 30 * 60 * 1000"

definition SessionManager :: "options \<Rightarrow> manager" where
  "SessionManager opt =
    \<lparr>sessions = [], mcpOptions = opt, cleanupInterval = True, created = 0, timers = [],
     prompts = [], ws_sent = [], ws_closed = [], logins = []\<rparr>"

text \<open>An assignment to a field of the session object just read from the registry under
  \<open>sid\<close>.\<close>

definition modify_session :: "jsstring \<Rightarrow> (session \<Rightarrow> session) \<Rightarrow> manager \<Rightarrow> manager" where
  "modify_session sid f m =
     m\<lparr>sessions := map (\<lambda>(k, s). (k, if k = sid then f s else s)) (sessions m)\<rparr>"

text \<open>An assignment to a field of the session object \<open>r\<close> that a closure has captured. It
  shows in the registry when the object is still registered; an object that has been
  destroyed is out of the manager's reach and is not modelled further.\<close>

definition modify_object :: "nat \<Rightarrow> (session \<Rightarrow> session) \<Rightarrow> manager \<Rightarrow> manager" where
  "modify_object r f m =
     m\<lparr>sessions := map (\<lambda>(k, s). (k, if obj s = r then f s else s)) (sessions m)\<rparr>"

definition clearTimeout :: "nat \<Rightarrow> manager \<Rightarrow> manager" where
  "clearTimeout t m = m\<lparr>timers := (timers m)[t := None]\<rparr>"

definition resolve :: "nat \<Rightarrow> json option \<Rightarrow> manager \<Rightarrow> manager" where
  "resolve p v m = m\<lparr>prompts := settle p (Fulfilled v) (prompts m)\<rparr>"

definition reject :: "nat \<Rightarrow> js_error \<Rightarrow> manager \<Rightarrow> manager" where
  "reject p e m = m\<lparr>prompts := settle p (Rejected e) (prompts m)\<rparr>"

text \<open>\<open>getOrCreateSession\<close>; \<open>dir\<close> is the value of
  \<open>path.join(os.tmpdir(), 'mcp-sessions', sessionId)\<close> and \<open>now\<close> that of \<open>Date.now()\<close>.\<close>

definition getOrCreateSession ::
  "host \<Rightarrow> manager \<Rightarrow> jsstring \<Rightarrow> jsstring \<Rightarrow> int \<Rightarrow> js_error + manager" where
  "getOrCreateSession h m sid dir now =
    (case map_of (sessions m) sid of
       Some s \<Rightarrow> Inr (modify_session sid (\<lambda>s. s\<lparr>lastActivity := now\<rparr>) m)
     | None \<Rightarrow>
         (case (if existsSync h dir then None else mkdirSync h dir) of
            Some e \<Rightarrow> Inl e
          | None \<Rightarrow>
              Inr (modify_session sid (\<lambda>s. s\<lparr>lastActivity := now\<rparr>)
                (m\<lparr>sessions := AList.update sid
                     \<lparr>sessionId = sid, mcpClient = None, wsConnections = [],
                      lastActivity = now, promptResolvers = [], workDir = dir,
                      pingoneConfig = None, obj = created m\<rparr> (sessions m),
                   created := Suc (created m)\<rparr>))))"

text \<open>How far an asynchronous function got: it returned, it threw, or it is suspended.\<close>

datatype 'a progress = Returned | Threw js_error | Awaiting 'a

definition triggerLogin :: "host \<Rightarrow> manager \<Rightarrow> jsstring \<Rightarrow> config \<Rightarrow> manager \<times> nat progress" where
  "triggerLogin h m sid cfg =
    (case map_of (sessions m) sid of
       None \<Rightarrow> (m, Threw (Error (js ''Session '' @ sid @ js '' not found'')))
     | Some s \<Rightarrow>
         (m\<lparr>logins := logins m @
              [\<lparr>proc_command = command (mcpOptions m), proc_args = [js ''login''],
                proc_cwd = Some (workDir s),
                proc_env = spread (process_env h)
                  [(js ''PINGONE_MCP_ENVIRONMENT_ID'', Some (environmentId cfg)),
                   (js ''PINGONE_AUTHORIZATION_CODE_CLIENT_ID'', Some (clientId cfg)),
                   (js ''PINGONE_REGION_CODE'', Some (region cfg)),
                   (js ''PINGONE_TOP_LEVEL_DOMAIN'', Some (topLevelDomain cfg)),
                   (js ''PINGONE_AUTHORIZATION_CODE_SCOPES'', Some (js ''openid''))]\<rparr>],
            timers := timers m @ [Some (LoginTimeout (length (logins m)))]\<rparr>,
          Awaiting (length (logins m))))"

text \<open>
  \<open>initializeMcpClient\<close> up to its first suspension, inside \<open>mcpClient.initialize()\<close>: the
  new client is not yet stored in the session. \<open>uuid\<close> is the id of the handshake request.
\<close>

definition initializeMcpClient ::
  "host \<Rightarrow> jsstring \<Rightarrow> manager \<Rightarrow> jsstring \<Rightarrow> config \<Rightarrow> manager \<times> (client \<times> nat option) progress"
where
  "initializeMcpClient h uuid m sid cfg =
    (case map_of (sessions m) sid of
       None \<Rightarrow> (m, Threw (Error (js ''Session '' @ sid @ js '' not found'')))
     | Some s \<Rightarrow>
         if mcpClient s \<noteq> None then (m, Returned)
         else
           let m1 = modify_session sid (\<lambda>s. s\<lparr>pingoneConfig := Some cfg\<rparr>) m;
               mcpEnv = spread (case env (mcpOptions m) of None \<Rightarrow> [] | Some e \<Rightarrow> e)
                  [(js ''PINGONE_MCP_ENVIRONMENT_ID'', Some (environmentId cfg)),
                   (js ''PINGONE_AUTHORIZATION_CODE_CLIENT_ID'', Some (clientId cfg)),
                   (js ''PINGONE_REGION_CODE'', Some (region cfg)),
                   (js ''PINGONE_TOP_LEVEL_DOMAIN'', Some (topLevelDomain cfg))];
               c = StdioMcpClient ((mcpOptions m)\<lparr>workingDirectory := Some (workDir s),
                     env := Some mcpEnv, onPrompt := True, onResourceRequest := True\<rparr>)
           in (case initialize h uuid c of
                 Inl e \<Rightarrow> (m1, Threw e)
               | Inr r \<Rightarrow> (m1, Awaiting r)))"

text \<open>
  Its continuation when \<open>mcpClient.initialize()\<close> has completed, \<open>c\<close> being the client as it
  then is and \<open>r\<close> the session object the call has read at its start: the client is stored
  in that object, and the login process is spawned for the session then registered under
  the id.
\<close>

definition initializeMcpClient_resume ::
  "host \<Rightarrow> manager \<Rightarrow> jsstring \<Rightarrow> nat \<Rightarrow> config \<Rightarrow> client \<Rightarrow> manager \<times> nat progress" where
  "initializeMcpClient_resume h m sid r cfg c =
     triggerLogin h (modify_object r (\<lambda>s. s\<lparr>mcpClient := Some c\<rparr>) m) sid cfg"

text \<open>The loop over the connections: the messages sent and \<open>sentCount\<close>. \<open>state\<close> gives the
  \<open>readyState\<close> of a connection and \<open>throws\<close> tells whether its \<open>send\<close> throws.\<close>

fun broadcast ::
  "(nat \<Rightarrow> ready_state) \<Rightarrow> (nat \<Rightarrow> bool) \<Rightarrow> json \<Rightarrow> nat list \<Rightarrow> (nat \<times> json) list \<times> nat" where
  "broadcast state throws msg [] = ([], 0)"
| "broadcast state throws msg (ws # rest) =
    (case broadcast state throws msg rest of
       (out, sentCount) \<Rightarrow>
         if state ws = OPEN \<and> \<not> throws ws then ((ws, msg) # out, Suc sentCount)
         else (out, sentCount))"

definition promptId_of :: "jsstring \<Rightarrow> int \<Rightarrow> jsstring" where
  "promptId_of sid now = sid @ js ''-'' @ clock_toString now"

text \<open>\<open>handlePromptForSession\<close>, \<open>now\<close> being the value of \<open>Date.now()\<close>; the result is the
  promise it returns.\<close>

definition handlePromptForSession ::
  "(nat \<Rightarrow> ready_state) \<Rightarrow> (nat \<Rightarrow> bool) \<Rightarrow> int \<Rightarrow> manager \<Rightarrow> jsstring \<Rightarrow> json option
     \<Rightarrow> manager \<times> nat" where
  "handlePromptForSession state throws now m sid params =
    (let p = length (prompts m) in
     case map_of (sessions m) sid of
       None \<Rightarrow>
         (m\<lparr>prompts := prompts m @
              [Rejected (Error (js ''Session '' @ sid @ js '' not found for prompt handling''))]\<rparr>,
          p)
     | Some s \<Rightarrow>
         let promptId = promptId_of sid now;
             t = length (timers m);
             m1 = m\<lparr>prompts := prompts m @ [Pending],
                    timers := timers m @ [Some (PromptTimeout (obj s) promptId p)]\<rparr>;
             m2 = modify_session sid
                    (\<lambda>s. s\<lparr>promptResolvers :=
                             AList.update promptId \<lparr>settles = p, timeout = t\<rparr>
                               (promptResolvers s)\<rparr>) m1;
             promptMsg = object [(js ''type'', Some (JStr (js ''prompt''))),
                                 (js ''id'', Some (JStr promptId)), (js ''params'', params)]
         in (case broadcast state throws promptMsg (wsConnections s) of
               (out, sentCount) \<Rightarrow>
                 let m3 = m2\<lparr>ws_sent := ws_sent m2 @ out\<rparr> in
                 if sentCount = 0 then
                   (reject p (Error (js ''No connected clients to handle prompt''))
                      (modify_session sid
                         (\<lambda>s. s\<lparr>promptResolvers := AList.delete promptId (promptResolvers s)\<rparr>)
                         (clearTimeout t m3)), p)
                 else (m3, p)))"

text \<open>The callback of a prompt timer when it fires.\<close>

definition prompt_timeout :: "nat \<Rightarrow> manager \<Rightarrow> manager" where
  "prompt_timeout t m =
    (case (if t < length (timers m) then timers m ! t else None) of
       Some (PromptTimeout r promptId p) \<Rightarrow>
         reject p (Error (js ''Prompt timeout - no client response''))
           (modify_object r
              (\<lambda>s. s\<lparr>promptResolvers := AList.delete promptId (promptResolvers s)\<rparr>)
              (m\<lparr>timers := (timers m)[t := None]\<rparr>))
     | _ \<Rightarrow> m)"

definition handlePromptResponse :: "manager \<Rightarrow> jsstring \<Rightarrow> jsstring \<Rightarrow> json option \<Rightarrow> manager" where
  "handlePromptResponse m sid promptId response =
    (case map_of (sessions m) sid of
       None \<Rightarrow> m
     | Some s \<Rightarrow>
         (case map_of (promptResolvers s) promptId of
            Some r \<Rightarrow>
              resolve (settles r) response
                (modify_session sid
                   (\<lambda>s. s\<lparr>promptResolvers := AList.delete promptId (promptResolvers s)\<rparr>)
                   (clearTimeout (timeout r) m))
          | None \<Rightarrow> m))"

definition addWebSocketConnection :: "manager \<Rightarrow> jsstring \<Rightarrow> nat \<Rightarrow> int \<Rightarrow> manager" where
  "addWebSocketConnection m sid ws now =
     modify_session sid
       (\<lambda>s. s\<lparr>wsConnections := (if ws \<in> set (wsConnections s) then wsConnections s
                                  else wsConnections s @ [ws]),
              lastActivity := now\<rparr>) m"

definition removeWebSocketConnection :: "manager \<Rightarrow> jsstring \<Rightarrow> nat \<Rightarrow> int \<Rightarrow> manager" where
  "removeWebSocketConnection m sid ws now =
     modify_session sid
       (\<lambda>s. s\<lparr>wsConnections := removeAll ws (wsConnections s), lastActivity := now\<rparr>) m"

definition touchSession :: "manager \<Rightarrow> jsstring \<Rightarrow> int \<Rightarrow> manager" where
  "touchSession m sid now = modify_session sid (\<lambda>s. s\<lparr>lastActivity := now\<rparr>) m"

definition destroySession :: "manager \<Rightarrow> jsstring \<Rightarrow> manager" where
  "destroySession m sid =
    (case map_of (sessions m) sid of
       None \<Rightarrow> m
     | Some s \<Rightarrow>
         let m1 = fold (\<lambda>(promptId, r) m.
                          reject (settles r) (Error (js ''Session terminated''))
                            (clearTimeout (timeout r) m))
                       (promptResolvers s) m;
             m2 = modify_session sid (\<lambda>s. s\<lparr>promptResolvers := []\<rparr>) m1;
             m3 = m2\<lparr>ws_closed := ws_closed m2 @ wsConnections s\<rparr>;
             m4 = modify_session sid (\<lambda>s. s\<lparr>wsConnections := []\<rparr>) m3
         in m4\<lparr>sessions := AList.delete sid (sessions m4)\<rparr>)"

text \<open>The loop of \<open>cleanupIdleSessions\<close> over the keys of the registry: the iterator of a
  \<open>Map\<close> is live, so an entry is read when it is visited.\<close>

fun cleanup_loop :: "int \<Rightarrow> jsstring list \<Rightarrow> manager \<Rightarrow> manager" where
  "cleanup_loop now [] m = m"
| "cleanup_loop now (sid # rest) m =
    cleanup_loop now rest
      (case map_of (sessions m) sid of
         None \<Rightarrow> m
       | Some s \<Rightarrow>
           if now - lastActivity s > IDLE_TIMEOUT \<and> length (wsConnections s) = 0
           then destroySession m sid else m)"

definition cleanupIdleSessions :: "int \<Rightarrow> manager \<Rightarrow> manager" where
  "cleanupIdleSessions now m = cleanup_loop now (map fst (sessions m)) m"

definition shutdown :: "manager \<Rightarrow> manager" where
  "shutdown m = fold (\<lambda>sid m. destroySession m sid) (map fst (sessions m)) (m\<lparr>cleanupInterval := False\<rparr>)"

definition getSessionMcpClient :: "manager \<Rightarrow> jsstring \<Rightarrow> client option" where
  "getSessionMcpClient m sid = (case map_of (sessions m) sid of None \<Rightarrow> None | Some s \<Rightarrow> mcpClient s)"

text \<open>The processes spawned by the client that a call of \<open>initializeMcpClient\<close> has
  constructed and is waiting for.\<close>

definition spawns_of :: "(client \<times> nat option) progress \<Rightarrow> nat" where
  "spawns_of r = (case r of Awaiting (c, w) \<Rightarrow> length (spawned c) | _ \<Rightarrow> 0)"

section \<open>Example inputs\<close>

definition ex_options :: options where
  "ex_options = \<lparr>command = js ''/bin/server'', args = None, env = None,
     workingDirectory = None, initCapabilities = None, onPrompt = False,
     onResourceRequest = False\<rparr>"

definition ex_host :: host where
  "ex_host = \<lparr>existsSync = (\<lambda>path. True), mkdirSync = (\<lambda>path. None), process_env = []\<rparr>"

definition ex_running :: client where
  "ex_running = (case start ex_host (StdioMcpClient ex_options) of Inr st \<Rightarrow> st
                 | Inl e \<Rightarrow> StdioMcpClient ex_options)"

definition ex_two_calls :: client where
  "ex_two_calls =
     fst (callTool (fst (callTool ex_running (js ''a'') (js ''list-x'') (Some (JObj []))))
            (js ''b'') (js ''list-y'') (Some (JObj [])))"

definition ex_reply_b :: json where
  "ex_reply_b = JObj [(js ''jsonrpc'', JStr (js ''2.0'')), (js ''id'', JStr (js ''b'')),
                      (js ''result'', JNum (js ''7''))]"

definition ex_error_a :: json where
  "ex_error_a = JObj [(js ''jsonrpc'', JStr (js ''2.0'')), (js ''id'', JStr (js ''a'')),
                      (js ''error'', JObj [(js ''code'', JNum (js ''-32000'')),
                                           (js ''message'', JStr (js ''boom''))])]"

definition ex_ping :: json where
  "ex_ping = JObj [(js ''jsonrpc'', JStr (js ''2.0'')), (js ''id'', JStr (js ''p1'')),
                   (js ''method'', JStr (js ''ping''))]"

definition ex_tools_reply :: json where
  "ex_tools_reply =
     JObj [(js ''jsonrpc'', JStr (js ''2.0'')), (js ''id'', JStr (js ''t'')),
           (js ''result'', JObj [(js ''tools'', JArr [JObj [(js ''name'', JStr (js ''list-x''))]])])]"

definition ex_tools_notification :: json where
  "ex_tools_notification =
     JObj [(js ''jsonrpc'', JStr (js ''2.0'')), (js ''method'', JStr (js ''tools/list'')),
           (js ''params'', JObj [(js ''tools'', JArr [JObj [(js ''name'', JStr (js ''create-y''))]])])]"

definition ex_session :: session where
  "ex_session = \<lparr>sessionId = js ''S1'', mcpClient = None, wsConnections = [],
     lastActivity = 1000, promptResolvers = [], workDir = js ''/tmp/mcp-sessions/S1'',
     pingoneConfig = None, obj = 0\<rparr>"

definition ex_manager :: manager where
  "ex_manager =
     (case getOrCreateSession ex_host (SessionManager ex_options) (js ''S1'')
             (js ''/tmp/mcp-sessions/S1'') 1000 of
        Inr m \<Rightarrow> m
      | Inl e \<Rightarrow> SessionManager ex_options)"

definition ex_connected :: manager where
  "ex_connected = addWebSocketConnection ex_manager (js ''S1'') 7 1000"

definition ex_prompted :: manager where
  "ex_prompted = fst (handlePromptForSession (\<lambda>ws. OPEN) (\<lambda>ws. False) 1700000000000
                        ex_connected (js ''S1'') None)"

definition ex_prompted_again :: manager where
  "ex_prompted_again = fst (handlePromptForSession (\<lambda>ws. OPEN) (\<lambda>ws. False) 1700000000000
                              ex_prompted (js ''S1'') None)"

definition ex_config :: config where
  "ex_config = \<lparr>environmentId = js ''e1'', clientId = js ''c1'', region = js ''NA'',
     topLevelDomain = js ''com''\<rparr>"

definition ex_first :: "manager \<times> (client \<times> nat option) progress" where
  "ex_first = initializeMcpClient ex_host (js ''u1'') ex_manager (js ''S1'') ex_config"

definition ex_second :: "manager \<times> (client \<times> nat option) progress" where
  "ex_second = initializeMcpClient ex_host (js ''u2'') (fst ex_first) (js ''S1'') ex_config"

definition ex_head :: string where
  \<open>ex_head = ''{"jsonrpc":"2.0","id":"a","result":"''\<close>

definition ex_tail :: string where
  \<open>ex_tail = ''"}''\<close>

definition ex_chunk1 :: "byte list" where
  "ex_chunk1 = ascii ex_head @ [0xC3]"

definition ex_chunk2 :: "byte list" where
  "ex_chunk2 = [0xA9] @ ascii ex_tail @ [0x0A]"

definition ex_result :: "jsstring \<Rightarrow> json" where
  "ex_result r = JObj [(js ''jsonrpc'', JStr (js ''2.0'')), (js ''id'', JStr (js ''a'')),
                       (js ''result'', JStr r)]"

text \<open>Lines of the child, what \<open>JSON.parse\<close> returns for them, and the chunks that carry
  them.\<close>

definition ex_line_a :: string where
  \<open>ex_line_a = ''{"jsonrpc":"2.0","id":"a","result":"x"}''\<close>

definition ex_line_b :: string where
  \<open>ex_line_b = ''{"jsonrpc":"2.0","id":"b","result":7}''\<close>

definition ex_line_bad :: string where
  \<open>ex_line_bad =
     ''{"jsonrpc":"2.0","id":"a","error":{"code":{"toString":1},"message":"boom"}}''\<close>

definition ex_bad_error :: json where
  "ex_bad_error =
     JObj [(js ''jsonrpc'', JStr (js ''2.0'')), (js ''id'', JStr (js ''a'')),
           (js ''error'', JObj [(js ''code'', JObj [(js ''toString'', JNum (js ''1''))]),
                                (js ''message'', JStr (js ''boom''))])]"

definition ex_parse :: "jsstring \<Rightarrow> json option" where
  "ex_parse l =
     (if l = js ''5'' then Some (JNum (js ''5''))
      else if l = js ex_line_a then Some (ex_result (js ''x''))
      else if l = js ex_line_b then Some ex_reply_b
      else if l = js ex_line_bad then Some ex_bad_error
      else None)"



definition ex_chunk_bad :: "byte list" where
  "ex_chunk_bad = ascii ex_line_bad @ [0x0A]"

text \<open>A message with an id, a method and a result, and a request whose method is an
  object.\<close>

definition ex_ping_result :: json where
  "ex_ping_result = JObj [(js ''jsonrpc'', JStr (js ''2.0'')), (js ''id'', JStr (js ''p1'')),
                          (js ''method'', JStr (js ''ping'')), (js ''result'', JNull)]"

definition ex_ping_object :: json where
  "ex_ping_object = JObj [(js ''jsonrpc'', JStr (js ''2.0'')), (js ''id'', JStr (js ''p1'')),
                          (js ''method'', JObj [(js ''toString'', JNum (js ''1''))])]"

section \<open>Properties of the protocol client\<close>

subsection \<open>Strings, promises and the invariant of the pending calls\<close>

lemma js_Nil [simp]: "js [] = []" by (simp add: js_def)
lemma js_append: "js (a @ b) = js a @ js b" by (simp add: js_def)

lemma unat_of_char: "unat (of_char c :: 16 word) = of_char c"
proof -
  have "(of_char c :: nat) < 256" by simp
  then have "(of_char c :: nat) < 2 ^ 16" by (rule order_less_trans) simp
  then have "unat (of_nat (of_char c) :: 16 word) = of_char c"
    by (simp add: unat_of_nat)
  then show ?thesis by (simp only: of_nat_of_char)
qed

lemma of_char_word_inj: "(of_char c :: 16 word) = of_char d \<longleftrightarrow> c = d"
proof
  assume h: "(of_char c :: 16 word) = of_char d"
  then have "unat (of_char c :: 16 word) = unat (of_char d :: 16 word)" by simp
  then have "(of_char c :: nat) = of_char d" by (simp only: unat_of_char)
  then show "c = d" by simp
qed simp

lemma js_eq_iff [simp]: "js a = js b \<longleftrightarrow> a = b"
  unfolding js_def by (simp add: inj_map_eq_map inj_on_def of_char_word_inj)

lemma settle_length [simp]: "length (settle p v ps) = length ps"
  by (simp add: settle_def)








lemma sendResponse_pending [simp]:
  "pending (sendResponse st rid r e) = pending st"
  "promises (sendResponse st rid r e) = promises st"
  "spawned (sendResponse st rid r e) = spawned st"
  "buffer (sendResponse st rid r e) = buffer st"
  by (simp_all add: sendResponse_def split: option.splits)

lemma handleServerRequest_pending [simp]:
  "pending (handleServerRequest st req) = pending st"
  "promises (handleServerRequest st req) = promises st"
  "spawned (handleServerRequest st req) = spawned st"
  by (simp_all add: handleServerRequest_def split: sum.splits)

lemma dispatch_response:
  assumes "is_response msg"
  shows "dispatch st msg =
     (case get msg (js ''id'') of
        Some (JStr i) \<Rightarrow>
          (case pending st i of
             Some pc \<Rightarrow>
               (case handler pc msg of
                  Inl e \<Rightarrow> Inl e
                | Inr outcome \<Rightarrow>
                    Inr (st\<lparr>pending := (pending st)(i := None),
                            promises := settle (promise_of pc) outcome (promises st)\<rparr>))
           | None \<Rightarrow> Inr st)
      | _ \<Rightarrow> Inr st)"
  using assms unfolding is_response_def dispatch_def Let_def
  by (simp split: option.splits json.splits)

lemma dispatch_matching:
  assumes "is_response msg" and "get msg (js ''id'') = Some (JStr i)" and "pending st i = Some pc"
  shows "dispatch st msg =
     (case handler pc msg of
        Inl e \<Rightarrow> Inl e
      | Inr outcome \<Rightarrow>
          Inr (st\<lparr>pending := (pending st)(i := None),
                  promises := settle (promise_of pc) outcome (promises st)\<rparr>))"
  using assms by (simp add: dispatch_response)













subsection \<open>The kinds of message\<close>

lemma has_key_get: "has_key k msg = Inr True \<Longrightarrow> \<exists>v. get msg k = Some v"
  by (cases msg; cases "get msg k") (simp_all add: map_of_eq_None_iff)

lemma dispatch_request: "is_request req \<Longrightarrow> dispatch st req = Inr (handleServerRequest st req)"
  by (simp add: is_request_def dispatch_def)

lemma dispatch_notification:
  "is_notification msg \<Longrightarrow> dispatch st msg =
     Inr (if get msg (js ''method'') = Some (JStr (js ''tools/list''))
          then st\<lparr>tools := nullish (opt_get (get msg (js ''params'')) (js ''tools'')) (JArr [])\<rparr>
          else st)"
  by (simp add: is_notification_def dispatch_def)

lemma nullish_value: "T \<noteq> JNull \<Longrightarrow> nullish (Some T) d = T"
  by (cases T) simp_all

lemma opt_get_Some: "get r k = Some T \<Longrightarrow> opt_get (Some r) k = Some T"
  by (cases r) simp_all

lemma dispatch_primitive: "has_key (js ''id'') msg = Inl e \<Longrightarrow> dispatch st msg = Inl e"
  by (simp add: dispatch_def)

lemma dispatch_ignored:
  "has_key (js ''id'') msg = Inr b \<Longrightarrow> \<not> is_response msg \<Longrightarrow> \<not> is_request msg
     \<Longrightarrow> \<not> is_notification msg \<Longrightarrow> dispatch st msg = Inr st"
  by (cases b) (auto simp: dispatch_def is_response_def is_request_def is_notification_def)

lemma object_Cons_Some [simp]: "object ((k, Some v) # kvs) = (case object kvs of JObj r \<Rightarrow> JObj ((k, v) # r) | x \<Rightarrow> x)"
  by (simp add: object_def List.map_filter_simps)

lemma object_Cons_None [simp]: "object ((k, None) # kvs) = object kvs"
  by (simp add: object_def List.map_filter_simps)

lemma object_Nil [simp]: "object [] = JObj []"
  by (simp add: object_def List.map_filter_simps)


subsection \<open>Lines and chunks\<close>

lemma split_nl_not_Nil [simp]: "split_nl s \<noteq> []"
  by (induction s) (auto split: list.splits)

lemma split_nl_append:
  "split_nl (a @ b) = butlast (split_nl a) @ split_nl (last (split_nl a) @ b)"
proof (induction a)
  case Nil
  then show ?case by simp
next
  case (Cons c a)
  show ?case
  proof (cases "c = 0x0A")
    case True
    with Cons show ?thesis by simp
  next
    case False
    obtain l ls where s: "split_nl a = l # ls" by (cases "split_nl a") auto
    show ?thesis
    proof (cases ls)
      case Nil
      with s False Cons show ?thesis by (auto split: list.splits)
    next
      case (Cons l' ls')
      with s False Cons.IH show ?thesis by (auto split: list.splits)
    qed
  qed
qed

lemma handleServerRequest_buffer:
  "handleServerRequest (st\<lparr>buffer := x\<rparr>) req = (handleServerRequest st req)\<lparr>buffer := x\<rparr>"
  by (cases "child st")
     (simp_all add: handleServerRequest_def sendResponse_def split: sum.splits)

lemma dispatch_buffer:
  "dispatch (st\<lparr>buffer := x\<rparr>) msg =
     (case dispatch st msg of Inl e \<Rightarrow> Inl e | Inr s \<Rightarrow> Inr (s\<lparr>buffer := x\<rparr>))"
proof (cases "has_key (js ''id'') msg")
  case (Inl e)
  then show ?thesis by (simp add: dispatch_primitive)
next
  case (Inr b)
  consider (response) "is_response msg" | (request) "is_request msg"
    | (notification) "is_notification msg"
    | (other) "\<not> is_response msg" "\<not> is_request msg" "\<not> is_notification msg"
    by blast
  then show ?thesis
  proof cases
    case response
    show ?thesis
    proof (cases "get msg (js ''id'')")
      case None
      with response show ?thesis by (simp add: dispatch_response)
    next
      case (Some v)
      show ?thesis
      proof (cases "\<exists>i. v = JStr i")
        case False
        with Some response show ?thesis
          by (cases v) (simp_all add: dispatch_response)
      next
        case True
        then obtain i where "v = JStr i" by blast
        with Some response show ?thesis
          by (cases "pending st i") (simp_all add: dispatch_response split: sum.splits)
      qed
    qed
  next
    case request
    then show ?thesis by (simp add: dispatch_request handleServerRequest_buffer)
  next
    case notification
    then show ?thesis by (simp add: dispatch_notification)
  next
    case other
    with Inr show ?thesis by (simp add: dispatch_ignored)
  qed
qed

lemma process_parts_buffer:
  "process_parts parse (st\<lparr>buffer := x\<rparr>) parts =
     (case process_parts parse st parts of Inl e \<Rightarrow> Inl e | Inr s \<Rightarrow> Inr (s\<lparr>buffer := x\<rparr>))"
proof (induction parts arbitrary: st)
  case Nil
  then show ?case by simp
next
  case (Cons raw rest)
  show ?case
  proof (cases "blank raw \<or> parse raw = None")
    case True
    then show ?thesis using Cons.IH [of st] by auto
  next
    case False
    then obtain msg where m: "\<not> blank raw" "parse raw = Some msg" by auto
    show ?thesis
    proof (cases "dispatch st msg")
      case (Inl e)
      with m show ?thesis by (simp add: dispatch_buffer)
    next
      case (Inr s)
      with m Cons.IH [of s] show ?thesis by (simp add: dispatch_buffer)
    qed
  qed
qed

lemma process_parts_append:
  "process_parts parse st (xs @ ys) =
     (case process_parts parse st xs of Inl e \<Rightarrow> Inl e | Inr s \<Rightarrow> process_parts parse s ys)"
  by (induction xs arbitrary: st) (auto split: sum.splits option.splits)

lemma process_parts_keeps_buffer:
  "process_parts parse st parts = Inr s \<Longrightarrow> buffer s = buffer st"
proof -
  assume a: "process_parts parse st parts = Inr s"
  have "process_parts parse (st\<lparr>buffer := buffer st\<rparr>) parts = Inr s" using a by simp
  then have "(case process_parts parse st parts of Inl e \<Rightarrow> Inl e
              | Inr s \<Rightarrow> Inr (s\<lparr>buffer := buffer st\<rparr>)) = Inr s"
    by (simp only: process_parts_buffer)
  with a have "s\<lparr>buffer := buffer st\<rparr> = s" by simp
  then have "buffer (s\<lparr>buffer := buffer st\<rparr>) = buffer s" by simp
  then show ?thesis by simp
qed

text \<open>Text that arrives in two pieces is processed as if it had arrived in one.\<close>

lemma processBuffer_in_two_pieces:
  "processBuffer parse (st\<lparr>buffer := buffer st @ a @ b\<rparr>) =
     (case processBuffer parse (st\<lparr>buffer := buffer st @ a\<rparr>) of
        Inl e \<Rightarrow> Inl e
      | Inr s \<Rightarrow> processBuffer parse (s\<lparr>buffer := buffer s @ b\<rparr>))"
proof -
  let ?A = "buffer st @ a"
  let ?B' = "last (split_nl ?A) @ b"
  have sp: "split_nl (buffer st @ a @ b) = butlast (split_nl ?A) @ split_nl ?B'"
    using split_nl_append [of ?A b] by simp
  then have bl: "butlast (split_nl (buffer st @ a @ b))
                   = butlast (split_nl ?A) @ butlast (split_nl ?B')"
    and la: "last (split_nl (buffer st @ a @ b)) = last (split_nl ?B')"
    by (simp_all add: butlast_append)
  have lhs: "processBuffer parse (st\<lparr>buffer := buffer st @ a @ b\<rparr>) =
      (case process_parts parse st (butlast (split_nl ?A)) of
         Inl e \<Rightarrow> Inl e
       | Inr s \<Rightarrow> process_parts parse (s\<lparr>buffer := last (split_nl ?B')\<rparr>) (butlast (split_nl ?B')))"
    by (simp add: processBuffer_def Let_def bl la process_parts_append process_parts_buffer
        split: sum.splits)
  have rhs: "(case processBuffer parse (st\<lparr>buffer := buffer st @ a\<rparr>) of
        Inl e \<Rightarrow> Inl e
      | Inr s \<Rightarrow> processBuffer parse (s\<lparr>buffer := buffer s @ b\<rparr>)) =
      (case process_parts parse st (butlast (split_nl ?A)) of
         Inl e \<Rightarrow> Inl e
       | Inr s \<Rightarrow> process_parts parse (s\<lparr>buffer := last (split_nl ?B')\<rparr>) (butlast (split_nl ?B')))"
    by (simp add: processBuffer_def Let_def process_parts_buffer split: sum.splits)
  show ?thesis by (simp only: lhs rhs)
qed

lemma utf8_decode_ascii:
  "\<forall>b\<in>set bs. b < 0x80 \<Longrightarrow> utf8_decode None (bs @ rest) = map of_nat bs @ utf8_decode None rest"
  by (induction bs) (simp_all add: utf8_lead_def)

lemma unat_of_char_byte: "unat (of_char c :: byte) = of_char c"
proof -
  have "(of_char c :: nat) < 2 ^ 8" by simp
  then have "unat (of_nat (of_char c) :: byte) = of_char c"
    by (simp add: unat_of_nat)
  then show ?thesis by (simp only: of_nat_of_char)
qed

lemma unat_ascii: "map unat (ascii s) = map of_char s"
  by (simp add: ascii_def unat_of_char_byte)

lemma js_of_nat: "map (of_nat \<circ> of_char) s = js s"
  by (simp add: js_def of_nat_of_char)

lemma utf8_toString_ascii:
  "\<forall>c\<in>set s. (of_char c :: nat) < 0x80 \<Longrightarrow>
     utf8_decode None (map unat (ascii s) @ rest) = js s @ utf8_decode None rest"
  using utf8_decode_ascii [of "map of_char s" rest] by (simp add: unat_ascii js_of_nat)

lemma split_nl_no_newline: "0x0A \<notin> set s \<Longrightarrow> split_nl s = [s]"
  by (induction s) auto

lemma split_nl_line: "0x0A \<notin> set l \<Longrightarrow> split_nl (l @ 0x0A # r) = l # split_nl r"
  by (induction l) (auto split: list.splits)

lemma js_newline: "0x0A \<in> set (js s) \<longleftrightarrow> CHR 0x0A \<in> set s"
proof -
  have "(0x0A :: jschar) = of_char (CHR 0x0A)" by simp
  then show ?thesis
    unfolding js_def by (auto simp: of_char_word_inj simp del: of_char_Char)
qed

lemma utf8_toString_ascii_append:
  assumes "\<forall>b\<in>set c1. b < 0x80"
  shows "utf8_toString (c1 @ c2) = utf8_toString c1 @ utf8_toString c2"
proof -
  have a: "\<forall>b\<in>set (map unat c1). b < 0x80"
    using assms by (auto simp: word_less_nat_alt)
  show ?thesis
    using utf8_decode_ascii [OF a, of "map unat c2"] utf8_decode_ascii [OF a, of "[]"]
    by (simp add: utf8_toString_def)
qed

text \<open>A chunk boundary is harmless where the text before it is ASCII, so in particular
  between two lines.\<close>

lemma on_data_split_after_ascii:
  assumes "\<forall>b\<in>set c1. b < 0x80"
  shows "on_data_all parse st [c1 @ c2] = on_data_all parse st [c1, c2]"
proof -
  have "on_data parse st (c1 @ c2) =
     (case on_data parse st c1 of Inl e \<Rightarrow> Inl e | Inr s \<Rightarrow> on_data parse s c2)"
    unfolding on_data_def utf8_toString_ascii_append [OF assms]
    by (rule processBuffer_in_two_pieces)
  then show ?thesis by (simp split: sum.splits)
qed


lemma ex_running_eq:
  "start ex_host (StdioMcpClient ex_options) = Inr ex_running"
  by (simp add: ex_running_def start_def StdioMcpClient_def ex_options_def ex_host_def)

lemma ex_running_simps:
  "child ex_running = Some 0" "pending ex_running = Map.empty" "promises ex_running = []"
  by (simp_all add: ex_running_def start_def StdioMcpClient_def ex_options_def ex_host_def)

lemma ex_two_calls_simps:
  "pending ex_two_calls (js ''a'') = Some \<lparr>promise_of = 0, schema = None\<rparr>"
  "pending ex_two_calls (js ''b'') = Some \<lparr>promise_of = 1, schema = None\<rparr>"
  "promises ex_two_calls = [Pending, Pending]"
  by (simp_all add: ex_two_calls_def callTool_def sendRequest_def Let_def ex_running_simps)


lemma ex_two_calls_buffer: "ex_two_calls\<lparr>buffer := []\<rparr> = ex_two_calls"
  by (simp add: ex_two_calls_def callTool_def sendRequest_def Let_def ex_running_def start_def
      StdioMcpClient_def ex_options_def ex_host_def)


lemma ex_lines_no_newline:
  "0x0A \<notin> set (js ex_line_b)" "0x0A \<notin> set (js ex_line_bad)" "0x0A \<notin> set (js ''5'')"
  "0x0A \<notin> set (js ex_line_a)"
  by (simp_all add: js_newline ex_line_a_def ex_line_b_def ex_line_bad_def)

lemma ex_lines_not_blank:
  "\<not> blank (js ex_line_b)" "\<not> blank (js ex_line_bad)" "\<not> blank (js ''5'')"
  "\<not> blank (js ex_line_a)"
  by (simp_all add: blank_def ex_line_a_def ex_line_b_def ex_line_bad_def js_def
      js_whitespace_def)

lemma ex_parse_simps:
  "ex_parse (js ''5'') = Some (JNum (js ''5''))"
  "ex_parse (js ex_line_b) = Some ex_reply_b"
  "ex_parse (js ex_line_bad) = Some ex_bad_error"
  "ex_parse (js ex_line_a) = Some (ex_result (js ''x''))"
  by (simp_all add: ex_parse_def ex_line_a_def ex_line_b_def ex_line_bad_def)

lemma utf8_toString_line:
  assumes "\<forall>c\<in>set s. (of_char c :: nat) < 0x80"
  shows "utf8_toString (ascii s @ 0x0A # rest) = js s @ 0x0A # utf8_toString rest"
  using utf8_toString_ascii [OF assms, of "10 # map unat rest"]
  by (simp add: utf8_toString_def utf8_lead_def)

lemma utf8_toString_Nil [simp]: "utf8_toString [] = []"
  by (simp add: utf8_toString_def)

lemma ex_lines_ascii:
  "\<forall>c\<in>set ex_line_b. (of_char c :: nat) < 0x80"
  "\<forall>c\<in>set ex_line_bad. (of_char c :: nat) < 0x80"
  "\<forall>c\<in>set ''5''. (of_char c :: nat) < 0x80"
  "\<forall>c\<in>set ex_line_a. (of_char c :: nat) < 0x80"
  by (simp_all add: ex_line_a_def ex_line_b_def ex_line_bad_def)





lemma ex_bad_error_simps:
  "is_response ex_bad_error" "get ex_bad_error (js ''id'') = Some (JStr (js ''a''))"
  "handler pc ex_bad_error = Inl TypeError_primitive"
  by (simp_all add: is_response_def ex_bad_error_def handler_def template_def)

subsection \<open>Correlation of responses\<close>




subsection \<open>Calling a tool\<close>

lemma handler_no_error:
  "schema pc = None \<Longrightarrow> \<not> truthy (get res (js ''error''))
     \<Longrightarrow> handler pc res = Inr (Fulfilled (get res (js ''result'')))"
  by (simp add: handler_def)

lemma handler_error_object:
  "get res (js ''error'') = Some (JObj e) \<Longrightarrow> template (map_of e (js ''code'')) = Inr c
     \<Longrightarrow> template (map_of e (js ''message'')) = Inr m
     \<Longrightarrow> handler pc res = Inr (Rejected (Error (c @ js '': '' @ m)))"
  by (simp add: handler_def)

text \<open>
  Claim C9, for error objects whose code and message convert to strings. Without a child
  process, \<open>callTool\<close> returns a promise already rejected with the error "MCP process not
  started" and does nothing else. With a child process it writes the request
  \<open>{jsonrpc, id, method: "tools/call", params: {name, arguments}}\<close> and registers a pending
  call without schema; when the response with that id is handled, the entry is removed,
  and the promise is rejected with the error \<open>code: message\<close>, made of the texts of the code
  and of the message of the response's error object, if it carries one and the two convert
  to strings, and fulfilled with the response's result, unchanged, if its error is absent
  or falsy.
\<close>

theorem callTool_contract:
  "(child st = None \<longrightarrow>
      callTool st uuid name arguments =
        (st\<lparr>promises := promises st @ [Rejected (Error (js ''MCP process not started''))]\<rparr>,
         length (promises st)))
   \<and> (\<forall>c. child st = Some c \<longrightarrow>
        (\<exists>st'. callTool st uuid name arguments = (st', length (promises st))
           \<and> stdin st' = stdin st @
                [(c, JObj [(js ''jsonrpc'', JStr (js ''2.0'')), (js ''id'', JStr uuid),
                           (js ''method'', JStr (js ''tools/call'')),
                           (js ''params'',
                            JObj ((js ''name'', JStr name) #
                                  (case arguments of None \<Rightarrow> []
                                   | Some a \<Rightarrow> [(js ''arguments'', a)])))])]
           \<and> promises st' = promises st @ [Pending]
           \<and> pending st' uuid = Some \<lparr>promise_of = length (promises st), schema = None\<rparr>
           \<and> (\<forall>res. is_response res \<and> get res (js ''id'') = Some (JStr uuid) \<longrightarrow>
                 (\<forall>e code message.
                     get res (js ''error'') = Some (JObj e)
                     \<and> template (map_of e (js ''code'')) = Inr code
                     \<and> template (map_of e (js ''message'')) = Inr message \<longrightarrow>
                     (\<exists>st''. dispatch st' res = Inr st''
                        \<and> pending st'' uuid = None
                        \<and> promises st'' = promises st @
                             [Rejected (Error (code @ js '': '' @ message))]))
                 \<and> (\<not> truthy (get res (js ''error'')) \<longrightarrow>
                     (\<exists>st''. dispatch st' res = Inr st''
                        \<and> pending st'' uuid = None
                        \<and> promises st'' = promises st @ [Fulfilled (get res (js ''result''))])))))"
proof (intro conjI impI allI)
  assume "child st = None"
  then show "callTool st uuid name arguments =
        (st\<lparr>promises := promises st @ [Rejected (Error (js ''MCP process not started''))]\<rparr>,
         length (promises st))"
    by (simp add: callTool_def sendRequest_def Let_def)
next
  fix c assume c: "child st = Some c"
  let ?pc = "\<lparr>promise_of = length (promises st), schema = None\<rparr>"
  let ?st' = "fst (callTool st uuid name arguments)"
  have call: "callTool st uuid name arguments = (?st', length (promises st))"
    using c by (simp add: callTool_def sendRequest_def Let_def)
  have out: "stdin ?st' = stdin st @
                [(c, JObj [(js ''jsonrpc'', JStr (js ''2.0'')), (js ''id'', JStr uuid),
                           (js ''method'', JStr (js ''tools/call'')),
                           (js ''params'',
                            JObj ((js ''name'', JStr name) #
                                  (case arguments of None \<Rightarrow> []
                                   | Some a \<Rightarrow> [(js ''arguments'', a)])))])]"
    using c by (cases arguments) (simp_all add: callTool_def sendRequest_def Let_def)
  have pr: "promises ?st' = promises st @ [Pending]"
    and pe: "pending ?st' uuid = Some ?pc"
    using c by (simp_all add: callTool_def sendRequest_def Let_def)
  have settled: "\<exists>st''. dispatch ?st' res = Inr st'' \<and> pending st'' uuid = None
                    \<and> promises st'' = promises st @ [outcome]"
    if "is_response res \<and> get res (js ''id'') = Some (JStr uuid)"
      and "handler ?pc res = Inr outcome" for res outcome
  proof -
    let ?st'' = "?st'\<lparr>pending := (pending ?st')(uuid := None),
                     promises := settle (length (promises st)) outcome (promises ?st')\<rparr>"
    have "dispatch ?st' res = Inr ?st''"
      using that pe by (simp add: dispatch_matching)
    moreover have "promises ?st'' = promises st @ [outcome]"
      by (simp add: pr settle_def)
    moreover have "pending ?st'' uuid = None" by simp
    ultimately show ?thesis by blast
  qed
  have reply: "(\<forall>e code message.
                     get res (js ''error'') = Some (JObj e)
                     \<and> template (map_of e (js ''code'')) = Inr code
                     \<and> template (map_of e (js ''message'')) = Inr message \<longrightarrow>
                     (\<exists>st''. dispatch ?st' res = Inr st''
                        \<and> pending st'' uuid = None
                        \<and> promises st'' = promises st @
                             [Rejected (Error (code @ js '': '' @ message))]))
                 \<and> (\<not> truthy (get res (js ''error'')) \<longrightarrow>
                     (\<exists>st''. dispatch ?st' res = Inr st''
                        \<and> pending st'' uuid = None
                        \<and> promises st'' = promises st @ [Fulfilled (get res (js ''result''))]))"
    if r: "is_response res \<and> get res (js ''id'') = Some (JStr uuid)" for res
  proof (intro conjI impI allI)
    fix e code message
    assume "get res (js ''error'') = Some (JObj e)
                     \<and> template (map_of e (js ''code'')) = Inr code
                     \<and> template (map_of e (js ''message'')) = Inr message"
    then have "handler ?pc res = Inr (Rejected (Error (code @ js '': '' @ message)))"
      by (simp add: handler_error_object)
    from settled [OF r this]
    show "\<exists>st''. dispatch ?st' res = Inr st'' \<and> pending st'' uuid = None
            \<and> promises st'' = promises st @ [Rejected (Error (code @ js '': '' @ message))]" .
  next
    assume "\<not> truthy (get res (js ''error''))"
    then have "handler ?pc res = Inr (Fulfilled (get res (js ''result'')))"
      by (simp add: handler_no_error)
    from settled [OF r this]
    show "\<exists>st''. dispatch ?st' res = Inr st'' \<and> pending st'' uuid = None
            \<and> promises st'' = promises st @ [Fulfilled (get res (js ''result''))]" .
  qed
  show "\<exists>st'. callTool st uuid name arguments = (st', length (promises st))
           \<and> stdin st' = stdin st @
                [(c, JObj [(js ''jsonrpc'', JStr (js ''2.0'')), (js ''id'', JStr uuid),
                           (js ''method'', JStr (js ''tools/call'')),
                           (js ''params'',
                            JObj ((js ''name'', JStr name) #
                                  (case arguments of None \<Rightarrow> []
                                   | Some a \<Rightarrow> [(js ''arguments'', a)])))])]
           \<and> promises st' = promises st @ [Pending]
           \<and> pending st' uuid = Some \<lparr>promise_of = length (promises st), schema = None\<rparr>
           \<and> (\<forall>res. is_response res \<and> get res (js ''id'') = Some (JStr uuid) \<longrightarrow>
                 (\<forall>e code message.
                     get res (js ''error'') = Some (JObj e)
                     \<and> template (map_of e (js ''code'')) = Inr code
                     \<and> template (map_of e (js ''message'')) = Inr message \<longrightarrow>
                     (\<exists>st''. dispatch st' res = Inr st''
                        \<and> pending st'' uuid = None
                        \<and> promises st'' = promises st @
                             [Rejected (Error (code @ js '': '' @ message))]))
                 \<and> (\<not> truthy (get res (js ''error'')) \<longrightarrow>
                     (\<exists>st''. dispatch st' res = Inr st''
                        \<and> pending st'' uuid = None
                        \<and> promises st'' = promises st @ [Fulfilled (get res (js ''result''))])))"
    using call out pr pe reply by blast
qed

lemma ex_error_a_simps:
  "is_response ex_error_a" "get ex_error_a (js ''id'') = Some (JStr (js ''a''))"
  "get ex_error_a (js ''error'')
     = Some (JObj [(js ''code'', JNum (js ''-32000'')), (js ''message'', JStr (js ''boom''))])"
  by (simp_all add: is_response_def ex_error_a_def)

theorem callTool_contract_witness:
  "child ex_running = Some 0 \<and> is_response ex_error_a
   \<and> get ex_error_a (js ''id'') = Some (JStr (js ''a''))
   \<and> (\<exists>st' st''. callTool ex_running (js ''a'') (js ''list-x'') (Some (JObj [])) = (st', 0)
       \<and> dispatch st' ex_error_a = Inr st''
       \<and> pending st'' (js ''a'') = None
       \<and> promises st'' = [Rejected (Error (js ''-32000: boom''))])"
proof -
  let ?e = "[(js ''code'', JNum (js ''-32000'')), (js ''message'', JStr (js ''boom''))]"
  have c0: "child ex_running = Some 0" by (simp add: ex_running_simps)
  have t: "template (map_of ?e (js ''code'')) = Inr (js ''-32000'')"
    "template (map_of ?e (js ''message'')) = Inr (js ''boom'')"
    by (simp_all add: template_def)
  from callTool_contract [of ex_running "js ''a''" "js ''list-x''" "Some (JObj [])"] c0
  obtain st' where c: "callTool ex_running (js ''a'') (js ''list-x'') (Some (JObj [])) = (st', 0)"
    and a: "\<forall>res. is_response res \<and> get res (js ''id'') = Some (JStr (js ''a'')) \<longrightarrow>
                 (\<forall>e code message.
                     get res (js ''error'') = Some (JObj e)
                     \<and> template (map_of e (js ''code'')) = Inr code
                     \<and> template (map_of e (js ''message'')) = Inr message \<longrightarrow>
                     (\<exists>st''. dispatch st' res = Inr st''
                        \<and> pending st'' (js ''a'') = None
                        \<and> promises st'' = promises ex_running @
                             [Rejected (Error (code @ js '': '' @ message))]))
                 \<and> (\<not> truthy (get res (js ''error'')) \<longrightarrow>
                     (\<exists>st''. dispatch st' res = Inr st''
                        \<and> pending st'' (js ''a'') = None
                        \<and> promises st'' = promises ex_running @ [Fulfilled (get res (js ''result''))]))"
    unfolding ex_running_simps(3) list.size by blast
  from a ex_error_a_simps t obtain st'' where d: "dispatch st' ex_error_a = Inr st''"
    and q: "pending st'' (js ''a'') = None"
    and p: "promises st'' = promises ex_running @
              [Rejected (Error (js ''-32000'' @ js '': '' @ js ''boom''))]"
    by blast
  from p have "promises st'' = [Rejected (Error (js ''-32000: boom''))]"
    by (simp add: ex_running_simps js_append [symmetric])
  with c d q ex_error_a_simps c0 show ?thesis by blast
qed

text \<open>
  Claim C9 as stated fails on the code. The response to the call \<open>a\<close> carries an error
  object whose code is an object that owns a \<open>toString\<close> key. The closure of the call is
  run after its entry has been deleted, and its template literal throws a TypeError: the
  promise of the call is not rejected, and the exception leaves the listener.
\<close>

theorem callTool_error_object_unsettled:
  "child ex_running = Some 0
   \<and> snd (callTool ex_running (js ''a'') (js ''list-x'') (Some (JObj []))) = 0
   \<and> promises (fst (callTool ex_running (js ''a'') (js ''list-x'') (Some (JObj [])))) = [Pending]
   \<and> pending (fst (callTool ex_running (js ''a'') (js ''list-x'') (Some (JObj [])))) (js ''a'')
       = Some \<lparr>promise_of = 0, schema = None\<rparr>
   \<and> is_response ex_bad_error
   \<and> get ex_bad_error (js ''id'') = Some (JStr (js ''a''))
   \<and> get ex_bad_error (js ''error'')
       = Some (JObj [(js ''code'', JObj [(js ''toString'', JNum (js ''1''))]),
                     (js ''message'', JStr (js ''boom''))])
   \<and> dispatch (fst (callTool ex_running (js ''a'') (js ''list-x'') (Some (JObj []))))
       ex_bad_error = Inl TypeError_primitive
   \<and> on_data ex_parse (fst (callTool ex_running (js ''a'') (js ''list-x'') (Some (JObj []))))
       ex_chunk_bad = Inl TypeError_primitive"
proof -
  let ?st' = "fst (callTool ex_running (js ''a'') (js ''list-x'') (Some (JObj [])))"
  have pe: "pending ?st' (js ''a'') = Some \<lparr>promise_of = 0, schema = None\<rparr>"
    and pr: "promises ?st' = [Pending]" and b: "buffer ?st' = []"
    and s: "snd (callTool ex_running (js ''a'') (js ''list-x'') (Some (JObj []))) = 0"
    by (simp_all add: callTool_def sendRequest_def Let_def ex_running_simps)
      (simp add: ex_running_def start_def StdioMcpClient_def ex_options_def ex_host_def)
  have d: "dispatch ?st' ex_bad_error = Inl TypeError_primitive"
    by (simp add: dispatch_matching [OF ex_bad_error_simps(1,2) pe] ex_bad_error_simps(3))
  have sp: "split_nl (buffer ?st' @ utf8_toString ex_chunk_bad) = [js ex_line_bad, []]"
    by (simp only: b ex_chunk_bad_def append_Nil append_Cons
        utf8_toString_line [OF ex_lines_ascii(2)] utf8_toString_Nil
        split_nl_line [OF ex_lines_no_newline(2)] split_nl.simps)
  have o: "on_data ex_parse ?st' ex_chunk_bad = Inl TypeError_primitive"
    by (simp add: on_data_def processBuffer_def Let_def sp ex_lines_not_blank ex_parse_simps
        dispatch_buffer d)
  have e: "get ex_bad_error (js ''error'')
       = Some (JObj [(js ''code'', JObj [(js ''toString'', JNum (js ''1''))]),
                     (js ''message'', JStr (js ''boom''))])"
    by (simp add: ex_bad_error_def)
  show ?thesis
    using pe pr s d o e ex_bad_error_simps(1,2) by (simp add: ex_running_simps)
qed

subsection \<open>Requests of the child that no handler serves\<close>

text \<open>
  Claim C10, for a request without result and error whose method converts to a string,
  while a child process is attached. Such a request of the child (a message with a method
  and an id) that is neither \<open>prompts/get\<close> with a registered prompt handler nor
  \<open>resources/read\<close> with a registered resource handler is answered at once: the client
  writes to the child an error response with the same id, the code -32601 and the message
  "Method not found: " followed by the text of the method, which is the method itself when
  it is a string.
\<close>

theorem unsupported_request_answered:
  assumes "is_request req"
    and "\<not> (get req (js ''method'') = Some (JStr (js ''prompts/get'')) \<and> onPrompt (opts st))"
    and "\<not> (get req (js ''method'') = Some (JStr (js ''resources/read''))
            \<and> onResourceRequest (opts st))"
    and "child st = Some c"
    and "template (get req (js ''method'')) = Inr m"
  shows "\<exists>rid. get req (js ''id'') = Some rid \<and>
           dispatch st req =
             Inr (st\<lparr>stdin := stdin st @
                   [(c, JObj [(js ''jsonrpc'', JStr (js ''2.0'')), (js ''id'', rid),
                              (js ''error'',
                               JObj [(js ''code'', JNum (js ''-32601'')),
                                     (js ''message'',
                                      JStr (js ''Method not found: '' @ m))])])]\<rparr>)
         \<and> (\<forall>s. get req (js ''method'') = Some (JStr s) \<longrightarrow> m = s)"
proof -
  from assms(1) obtain rid where rid: "get req (js ''id'') = Some rid"
    using has_key_get by (auto simp: is_request_def)
  have "handleServerRequest st req =
          st\<lparr>stdin := stdin st @
                   [(c, JObj [(js ''jsonrpc'', JStr (js ''2.0'')), (js ''id'', rid),
                              (js ''error'',
                               JObj [(js ''code'', JNum (js ''-32601'')),
                                     (js ''message'',
                                      JStr (js ''Method not found: '' @ m))])])]\<rparr>"
    using assms(2-5) rid by (auto simp: handleServerRequest_def sendResponse_def)
  with rid dispatch_request [OF assms(1)] assms(5) show ?thesis
    by (auto simp: template_def)
qed

lemma ex_running_stdin: "stdin ex_running = []"
  by (simp add: ex_running_def start_def StdioMcpClient_def ex_options_def ex_host_def)

lemma ex_running_opts: "\<not> onPrompt (opts ex_running)" "\<not> onResourceRequest (opts ex_running)"
  by (simp_all add: ex_running_def start_def StdioMcpClient_def ex_options_def ex_host_def)

lemma ex_running_reachable: "reachable ex_running"
  by (rule reachable.started [OF reachable.constructed ex_running_eq])

theorem unsupported_request_answered_witness:
  "is_request ex_ping \<and> child ex_running = Some 0
   \<and> template (get ex_ping (js ''method'')) = Inr (js ''ping'') \<and>
   dispatch ex_running ex_ping =
     Inr (ex_running\<lparr>stdin :=
            [(0, JObj [(js ''jsonrpc'', JStr (js ''2.0'')), (js ''id'', JStr (js ''p1'')),
                       (js ''error'', JObj [(js ''code'', JNum (js ''-32601'')),
                          (js ''message'', JStr (js ''Method not found: ping''))])])]\<rparr>)"
proof -
  have r: "is_request ex_ping" by (simp add: is_request_def ex_ping_def)
  have m: "get ex_ping (js ''method'') = Some (JStr (js ''ping''))"
    and i: "get ex_ping (js ''id'') = Some (JStr (js ''p1''))"
    by (simp_all add: ex_ping_def)
  have t: "template (get ex_ping (js ''method'')) = Inr (js ''ping'')"
    by (simp add: m template_def)
  have c: "child ex_running = Some 0" by (simp add: ex_running_simps)
  from unsupported_request_answered [OF r _ _ c t] m i
  have "dispatch ex_running ex_ping =
     Inr (ex_running\<lparr>stdin := stdin ex_running @
            [(0, JObj [(js ''jsonrpc'', JStr (js ''2.0'')), (js ''id'', JStr (js ''p1'')),
                       (js ''error'', JObj [(js ''code'', JNum (js ''-32601'')),
                          (js ''message'', JStr (js ''Method not found: '' @ js ''ping''))])])]\<rparr>)"
    by auto
  with r c t show ?thesis by (simp add: ex_running_stdin js_append [symmetric])
qed

text \<open>
  Claim C10 as stated fails on the code, in three ways. (i) Once the child has exited,
  \<open>sendResponse\<close> returns without writing, so a request still read from the pipe after the
  \<open>exit\<close> event is left unanswered. (ii) A message with an id, a method and also a result
  is taken for a response: with no pending call of that id it is dropped, and nothing is
  written although a child is attached. (iii) A request whose method is an object that
  owns a \<open>toString\<close> key makes the template literal of the answer throw inside the \<open>try\<close>,
  and the \<open>catch\<close> answers with the code -32603 and the message of the TypeError.
\<close>

theorem unsupported_request_unanswered:
  "reachable (child_exit ex_running) \<and> is_request ex_ping \<and>
   stdin (child_exit ex_running) = [] \<and>
   dispatch (child_exit ex_running) ex_ping = Inr (child_exit ex_running)
   \<and> reachable ex_running \<and> child ex_running = Some 0 \<and> stdin ex_running = []
   \<and> has_key (js ''id'') ex_ping_result = Inr True
   \<and> has_key (js ''method'') ex_ping_result = Inr True
   \<and> get ex_ping_result (js ''method'') = Some (JStr (js ''ping''))
   \<and> dispatch ex_running ex_ping_result = Inr ex_running
   \<and> is_request ex_ping_object
   \<and> dispatch ex_running ex_ping_object =
       Inr (ex_running\<lparr>stdin :=
              [(0, JObj [(js ''jsonrpc'', JStr (js ''2.0'')), (js ''id'', JStr (js ''p1'')),
                         (js ''error'', JObj [(js ''code'', JNum (js ''-32603'')),
                            (js ''message'',
                             JStr (js ''Cannot convert object to primitive value''))])])]\<rparr>)"
proof -
  have 1: "reachable (child_exit ex_running)"
    by (intro reachable.exited ex_running_reachable)
  have 2: "is_request ex_ping" by (simp add: is_request_def ex_ping_def)
  have 3: "stdin (child_exit ex_running) = []"
    by (simp add: child_exit_def ex_running_stdin)
  have "handleServerRequest (child_exit ex_running) ex_ping = child_exit ex_running"
    by (simp add: handleServerRequest_def sendResponse_def child_exit_def ex_ping_def
        ex_running_opts template_def)
  then have 4: "dispatch (child_exit ex_running) ex_ping = Inr (child_exit ex_running)"
    using dispatch_request [OF 2, of "child_exit ex_running"] by simp
  have 5: "has_key (js ''id'') ex_ping_result = Inr True"
    "has_key (js ''method'') ex_ping_result = Inr True"
    "get ex_ping_result (js ''method'') = Some (JStr (js ''ping''))"
    by (simp_all add: ex_ping_result_def)
  have "is_response ex_ping_result" "get ex_ping_result (js ''id'') = Some (JStr (js ''p1''))"
    by (simp_all add: is_response_def ex_ping_result_def)
  then have 6: "dispatch ex_running ex_ping_result = Inr ex_running"
    by (simp add: dispatch_response ex_running_simps)
  have 7: "is_request ex_ping_object" by (simp add: is_request_def ex_ping_object_def)
  have "handleServerRequest ex_running ex_ping_object =
       ex_running\<lparr>stdin :=
              [(0, JObj [(js ''jsonrpc'', JStr (js ''2.0'')), (js ''id'', JStr (js ''p1'')),
                         (js ''error'', JObj [(js ''code'', JNum (js ''-32603'')),
                            (js ''message'',
                             JStr (js ''Cannot convert object to primitive value''))])])]\<rparr>"
    by (simp add: handleServerRequest_def sendResponse_def ex_ping_object_def
        ex_running_opts ex_running_simps ex_running_stdin template_def)
  then have 8: "dispatch ex_running ex_ping_object =
       Inr (ex_running\<lparr>stdin :=
              [(0, JObj [(js ''jsonrpc'', JStr (js ''2.0'')), (js ''id'', JStr (js ''p1'')),
                         (js ''error'', JObj [(js ''code'', JNum (js ''-32603'')),
                            (js ''message'',
                             JStr (js ''Cannot convert object to primitive value''))])])]\<rparr>)"
    using dispatch_request [OF 7, of ex_running] by simp
  show ?thesis
    using 1 2 3 4 5 6 7 8 ex_running_reachable ex_running_simps(1) ex_running_stdin
    by (simp only: simp_thms)
qed

subsection \<open>The tool catalogue\<close>

text \<open>
  Claim C8. A client that has just been constructed lists no tools, and a call of \<open>callTool\<close>
  does not change what is listed. When the response to the
  \<open>tools/list\<close> request of \<open>initialize\<close> arrives without error and its result has a \<open>tools\<close>
  property, then after \<open>initialize\<close> has completed \<open>listTools\<close> returns exactly that value,
  and the client is initialized. A \<open>tools/list\<close> notification with a \<open>tools\<close> parameter
  replaces the catalogue, whatever it was before: \<open>listTools\<close> returns the new value only.
  (\<open>listTools\<close> reads a field and has no suspension point.)
\<close>

theorem listTools_contract:
  "listTools (StdioMcpClient opt) = JArr []
   \<and> listTools (fst (callTool st' uuid' name arguments)) = listTools st'
   \<and> (child st = Some c \<and> is_response res \<and> get res (js ''id'') = Some (JStr uuid)
        \<and> \<not> truthy (get res (js ''error'')) \<and> get res (js ''result'') = Some r
        \<and> get r (js ''tools'') = Some T \<and> T \<noteq> JNull \<longrightarrow>
        (\<exists>st1 st2. initialize_listTools uuid st = (st1, length (promises st))
            \<and> dispatch st1 res = Inr st2
            \<and> listTools (initialize_done (length (promises st)) st2) = T
            \<and> initialized (initialize_done (length (promises st)) st2)))
   \<and> (is_notification msg \<and> get msg (js ''method'') = Some (JStr (js ''tools/list''))
        \<and> opt_get (get msg (js ''params'')) (js ''tools'') = Some T' \<and> T' \<noteq> JNull \<longrightarrow>
        (\<exists>st''. dispatch st0 msg = Inr st'' \<and> listTools st'' = T'))"
proof (intro conjI impI)
  show "listTools (StdioMcpClient opt) = JArr []"
    by (simp add: listTools_def StdioMcpClient_def)
next
  show "listTools (fst (callTool st' uuid' name arguments)) = listTools st'"
    by (cases "child st'") (simp_all add: listTools_def callTool_def sendRequest_def Let_def)
next
  assume h: "child st = Some c \<and> is_response res \<and> get res (js ''id'') = Some (JStr uuid)
        \<and> \<not> truthy (get res (js ''error'')) \<and> get res (js ''result'') = Some r
        \<and> get r (js ''tools'') = Some T \<and> T \<noteq> JNull"
  let ?p = "length (promises st)"
  let ?pc = "\<lparr>promise_of = ?p, schema = None\<rparr>"
  let ?st1 = "fst (initialize_listTools uuid st)"
  let ?st2 = "?st1\<lparr>pending := (pending ?st1)(uuid := None),
                   promises := settle ?p (Fulfilled (Some r)) (promises ?st1)\<rparr>"
  from h have l: "initialize_listTools uuid st = (?st1, ?p)"
    and pr: "promises ?st1 = promises st @ [Pending]"
    and pe: "pending ?st1 uuid = Some ?pc"
    by (simp_all add: initialize_listTools_def sendRequest_def Let_def)
  from h have "handler ?pc res = Inr (Fulfilled (Some r))"
    by (simp add: handler_no_error)
  with h pe have d: "dispatch ?st1 res = Inr ?st2"
    by (simp add: dispatch_matching)
  have s: "promises ?st2 = promises st @ [Fulfilled (Some r)]"
    by (simp add: pr settle_def)
  from h have "nullish (opt_get (Some r) (js ''tools'')) (JArr []) = T"
    by (simp add: opt_get_Some nullish_value)
  then have "listTools (initialize_done ?p ?st2) = T \<and> initialized (initialize_done ?p ?st2)"
    unfolding initialize_done_def listTools_def s by simp
  with l d show "\<exists>st1 st2. initialize_listTools uuid st = (st1, ?p)
            \<and> dispatch st1 res = Inr st2
            \<and> listTools (initialize_done ?p st2) = T
            \<and> initialized (initialize_done ?p st2)"
    by blast
next
  assume "is_notification msg \<and> get msg (js ''method'') = Some (JStr (js ''tools/list''))
        \<and> opt_get (get msg (js ''params'')) (js ''tools'') = Some T' \<and> T' \<noteq> JNull"
  then show "\<exists>st''. dispatch st0 msg = Inr st'' \<and> listTools st'' = T'"
    by (simp add: dispatch_notification listTools_def nullish_value)
qed

theorem listTools_contract_witness:
  "child ex_running = Some 0 \<and> is_response ex_tools_reply \<and> is_notification ex_tools_notification
   \<and> (\<exists>st1 st2 st3. initialize_listTools (js ''t'') ex_running = (st1, 0)
          \<and> dispatch st1 ex_tools_reply = Inr st2
          \<and> listTools (initialize_done 0 st2) = JArr [JObj [(js ''name'', JStr (js ''list-x''))]]
          \<and> dispatch (initialize_done 0 st2) ex_tools_notification = Inr st3
          \<and> listTools st3 = JArr [JObj [(js ''name'', JStr (js ''create-y''))]])"
proof -
  have c: "child ex_running = Some 0" by (simp add: ex_running_simps)
  have r: "is_response ex_tools_reply" "get ex_tools_reply (js ''id'') = Some (JStr (js ''t''))"
    "\<not> truthy (get ex_tools_reply (js ''error''))"
    "get ex_tools_reply (js ''result'')
       = Some (JObj [(js ''tools'', JArr [JObj [(js ''name'', JStr (js ''list-x''))]])])"
    by (simp_all add: is_response_def ex_tools_reply_def)
  have n: "is_notification ex_tools_notification"
    "get ex_tools_notification (js ''method'') = Some (JStr (js ''tools/list''))"
    "opt_get (get ex_tools_notification (js ''params'')) (js ''tools'')
       = Some (JArr [JObj [(js ''name'', JStr (js ''create-y''))]])"
    by (simp_all add: is_notification_def ex_tools_notification_def)
  note t = listTools_contract [where st = ex_running and c = 0 and res = ex_tools_reply
      and uuid = "js ''t''" and msg = ex_tools_notification
      and r = "JObj [(js ''tools'', JArr [JObj [(js ''name'', JStr (js ''list-x''))]])]"
      and T = "JArr [JObj [(js ''name'', JStr (js ''list-x''))]]"
      and T' = "JArr [JObj [(js ''name'', JStr (js ''create-y''))]]"]
  from t [where opt = ex_options and ?st0.0 = ex_running, THEN conjunct2, THEN conjunct2,
          THEN conjunct1] c r
  obtain st1 st2 where 1: "initialize_listTools (js ''t'') ex_running = (st1, 0)"
    "dispatch st1 ex_tools_reply = Inr st2"
    "listTools (initialize_done 0 st2) = JArr [JObj [(js ''name'', JStr (js ''list-x''))]]"
    by (auto simp: ex_running_simps)
  from t [where opt = ex_options and ?st0.0 = "initialize_done 0 st2", THEN conjunct2,
          THEN conjunct2, THEN conjunct2] n
  obtain st3 where 2: "dispatch (initialize_done 0 st2) ex_tools_notification = Inr st3"
    "listTools st3 = JArr [JObj [(js ''name'', JStr (js ''create-y''))]]"
    by auto
  from c r(1) n(1) 1 2 show ?thesis by blast
qed

subsection \<open>Chunks of the child's output\<close>

lemma ex_ascii:
  "\<forall>c\<in>set ex_head. (of_char c :: nat) < 0x80" "\<forall>c\<in>set ex_tail. (of_char c :: nat) < 0x80"
  by (simp_all add: ex_head_def ex_tail_def)

lemma ex_decoded:
  "utf8_toString (ex_chunk1 @ ex_chunk2) = js ex_head @ [0xE9] @ js ex_tail @ [0x0A]"
  "utf8_toString ex_chunk1 = js ex_head @ [0xFFFD]"
  "utf8_toString ex_chunk2 = [0xFFFD] @ js ex_tail @ [0x0A]"
proof -
  show "utf8_toString (ex_chunk1 @ ex_chunk2) = js ex_head @ [0xE9] @ js ex_tail @ [0x0A]"
    using utf8_toString_ascii [OF ex_ascii(2), of "[0x0A]"]
    by (simp add: utf8_toString_def ex_chunk1_def ex_chunk2_def utf8_toString_ascii [OF ex_ascii(1)]
        utf8_lead_def utf16_def)
  show "utf8_toString ex_chunk1 = js ex_head @ [0xFFFD]"
    by (simp add: utf8_toString_def ex_chunk1_def utf8_toString_ascii [OF ex_ascii(1)]
        utf8_lead_def)
  show "utf8_toString ex_chunk2 = [0xFFFD] @ js ex_tail @ [0x0A]"
    using utf8_toString_ascii [OF ex_ascii(2), of "[0x0A]"]
    by (simp add: utf8_toString_def ex_chunk2_def utf8_lead_def)
qed

lemma ex_no_newline:
  "0x0A \<notin> set (js ex_head @ [0xE9] @ js ex_tail)"
  "0x0A \<notin> set (js ex_head @ [0xFFFD])"
  "0x0A \<notin> set (js ex_head @ [0xFFFD, 0xFFFD] @ js ex_tail)"
  by (simp_all add: js_newline ex_head_def ex_tail_def)

lemma ex_frames:
  "on_data_all parse (st\<lparr>buffer := []\<rparr>) [ex_chunk1 @ ex_chunk2]
     = process_parts parse (st\<lparr>buffer := []\<rparr>) [js ex_head @ [0xE9] @ js ex_tail]
   \<and> on_data_all parse (st\<lparr>buffer := []\<rparr>) [ex_chunk1, ex_chunk2]
     = process_parts parse (st\<lparr>buffer := []\<rparr>) [js ex_head @ [0xFFFD, 0xFFFD] @ js ex_tail]"
proof (intro conjI)
  have "split_nl (js ex_head @ [0xE9] @ js ex_tail @ [0x0A]) = [js ex_head @ [0xE9] @ js ex_tail, []]"
    using split_nl_line [OF ex_no_newline(1), of "[]"] by simp
  then have "on_data parse (st\<lparr>buffer := []\<rparr>) (ex_chunk1 @ ex_chunk2)
     = process_parts parse (st\<lparr>buffer := []\<rparr>) [js ex_head @ [0xE9] @ js ex_tail]"
    by (simp add: on_data_def processBuffer_def ex_decoded(1))
  then show "on_data_all parse (st\<lparr>buffer := []\<rparr>) [ex_chunk1 @ ex_chunk2]
     = process_parts parse (st\<lparr>buffer := []\<rparr>) [js ex_head @ [0xE9] @ js ex_tail]"
    by (simp split: sum.splits)
next
  have 1: "on_data parse (st\<lparr>buffer := []\<rparr>) ex_chunk1 = Inr (st\<lparr>buffer := js ex_head @ [0xFFFD]\<rparr>)"
    using split_nl_no_newline [OF ex_no_newline(2)]
    by (simp add: on_data_def processBuffer_def ex_decoded(2))
  have "split_nl (js ex_head @ [0xFFFD, 0xFFFD] @ js ex_tail @ [0x0A])
          = [js ex_head @ [0xFFFD, 0xFFFD] @ js ex_tail, []]"
    using split_nl_line [OF ex_no_newline(3), of "[]"] by simp
  then have 2: "on_data parse (st\<lparr>buffer := js ex_head @ [0xFFFD]\<rparr>) ex_chunk2
     = process_parts parse (st\<lparr>buffer := []\<rparr>) [js ex_head @ [0xFFFD, 0xFFFD] @ js ex_tail]"
    by (simp add: on_data_def processBuffer_def ex_decoded(3))
  from 1 2 show "on_data_all parse (st\<lparr>buffer := []\<rparr>) [ex_chunk1, ex_chunk2]
     = process_parts parse (st\<lparr>buffer := []\<rparr>) [js ex_head @ [0xFFFD, 0xFFFD] @ js ex_tail]"
    by (simp split: sum.splits)
qed

text \<open>
  Claim C2 fails on the code: each chunk is decoded on its own, so a chunk boundary inside
  a multi-byte UTF-8 character turns the two halves of the character into U+FFFD. For the
  bytes of the response line with id \<open>a\<close> whose result is the one-character string e-acute
  (encoded as C3 A9), delivered in one chunk, the line handed to \<open>JSON.parse\<close> has the character U+00E9;
  delivered in two chunks split between C3 and A9, it has two U+FFFD in its place. The
  partial line itself is retained and prefixed to the next chunk as the claim says.
\<close>

theorem split_inside_character_changes_frame:
  "on_data_all parse (st\<lparr>buffer := []\<rparr>) [ex_chunk1 @ ex_chunk2]
     = process_parts parse (st\<lparr>buffer := []\<rparr>) [js ex_head @ [0xE9] @ js ex_tail]
   \<and> on_data_all parse (st\<lparr>buffer := []\<rparr>) [ex_chunk1, ex_chunk2]
     = process_parts parse (st\<lparr>buffer := []\<rparr>) [js ex_head @ [0xFFFD, 0xFFFD] @ js ex_tail]
   \<and> js ex_head @ [0xE9] @ js ex_tail \<noteq> js ex_head @ [0xFFFD, 0xFFFD] @ js ex_tail"
  using ex_frames [of parse st] by simp

lemma ex_not_blank: "\<not> blank (js ex_head @ r)"
  by (simp add: blank_def ex_head_def js_def js_whitespace_def)

lemma ex_result_delivered:
  "map_sum id promises (dispatch ex_two_calls (ex_result r))
     = Inr [Fulfilled (Some (JStr r)), Pending]"
proof -
  have "is_response (ex_result r)" "get (ex_result r) (js ''id'') = Some (JStr (js ''a''))"
    by (simp_all add: is_response_def ex_result_def)
  moreover have "handler \<lparr>promise_of = 0, schema = None\<rparr> (ex_result r)
                   = Inr (Fulfilled (Some (JStr r)))"
    by (simp add: handler_def ex_result_def)
  ultimately show ?thesis
    by (simp add: dispatch_response ex_two_calls_simps settle_def)
qed

text \<open>With a parser that reads the two lines as \<open>JSON.parse\<close> does, the caller of request
  \<open>a\<close> receives U+00E9 from the unsplit chunk and two U+FFFD from the split one.\<close>

lemma split_inside_character_changes_result:
  assumes "parse (js ex_head @ [0xE9] @ js ex_tail) = Some (ex_result [0xE9])"
    and "parse (js ex_head @ [0xFFFD, 0xFFFD] @ js ex_tail) = Some (ex_result [0xFFFD, 0xFFFD])"
  shows "map_sum id promises (on_data_all parse ex_two_calls [ex_chunk1 @ ex_chunk2])
           = Inr [Fulfilled (Some (JStr [0xE9])), Pending]"
    and "map_sum id promises (on_data_all parse ex_two_calls [ex_chunk1, ex_chunk2])
           = Inr [Fulfilled (Some (JStr [0xFFFD, 0xFFFD])), Pending]"
proof -
  note f = ex_frames [of parse ex_two_calls, unfolded ex_two_calls_buffer]
  have "process_parts parse ex_two_calls [js ex_head @ [0xE9] @ js ex_tail]
          = dispatch ex_two_calls (ex_result [0xE9])"
    using assms(1) ex_not_blank [of "[0xE9] @ js ex_tail"] by (simp split: sum.splits)
  with f show "map_sum id promises (on_data_all parse ex_two_calls [ex_chunk1 @ ex_chunk2])
           = Inr [Fulfilled (Some (JStr [0xE9])), Pending]"
    by (simp only: ex_result_delivered)
  have "process_parts parse ex_two_calls [js ex_head @ [0xFFFD, 0xFFFD] @ js ex_tail]
          = dispatch ex_two_calls (ex_result [0xFFFD, 0xFFFD])"
    using assms(2) ex_not_blank [of "[0xFFFD, 0xFFFD] @ js ex_tail"] by (simp split: sum.splits)
  with f show "map_sum id promises (on_data_all parse ex_two_calls [ex_chunk1, ex_chunk2])
           = Inr [Fulfilled (Some (JStr [0xFFFD, 0xFFFD])), Pending]"
    by (simp only: ex_result_delivered)
qed

section \<open>Properties of the session manager\<close>

lemma map_of_modify_session:
  "map_of (sessions (modify_session sid f m)) k =
     (if k = sid then map_option f (map_of (sessions m) sid) else map_of (sessions m) k)"
proof -
  have "map_of (map (\<lambda>(k, s). (k, if k = sid then f s else s)) xs) k =
     (if k = sid then map_option f (map_of xs sid) else map_of xs k)" for xs
    by (induction xs) auto
  then show ?thesis by (simp add: modify_session_def)
qed

lemma map_of_modify_object:
  "map_of (sessions (modify_object r f m)) k =
     map_option (\<lambda>s. if obj s = r then f s else s) (map_of (sessions m) k)"
  unfolding modify_object_def by (simp add: map_of_map)

lemma modify_session_fields [simp]:
  "timers (modify_session sid f m) = timers m"
  "prompts (modify_session sid f m) = prompts m"
  "ws_sent (modify_session sid f m) = ws_sent m"
  "ws_closed (modify_session sid f m) = ws_closed m"
  "logins (modify_session sid f m) = logins m"
  "mcpOptions (modify_session sid f m) = mcpOptions m"
  "cleanupInterval (modify_session sid f m) = cleanupInterval m"
  by (simp_all add: modify_session_def)

lemma clearTimeout_fields [simp]:
  "sessions (clearTimeout t m) = sessions m"
  "prompts (clearTimeout t m) = prompts m"
  "ws_sent (clearTimeout t m) = ws_sent m"
  "timers (clearTimeout t m) = (timers m)[t := None]"
  by (simp_all add: clearTimeout_def)

lemma reject_fields [simp]:
  "sessions (reject p e m) = sessions m"
  "timers (reject p e m) = timers m"
  "ws_sent (reject p e m) = ws_sent m"
  "prompts (reject p e m) = settle p (Rejected e) (prompts m)"
  by (simp_all add: reject_def)

lemma resolve_fields [simp]:
  "sessions (resolve p v m) = sessions m"
  "timers (resolve p v m) = timers m"
  "ws_sent (resolve p v m) = ws_sent m"
  "prompts (resolve p v m) = settle p (Fulfilled v) (prompts m)"
  by (simp_all add: resolve_def)

lemmas digits_numeral =
  digits.simps [of "numeral k" for k] digits.simps [of 0] digits.simps [of 1]
  digits.simps [of "Suc 0"]

lemma ex_promptId: "promptId_of (js ''S1'') 1700000000000 = js ''S1-1700000000000''"
  by (simp add: promptId_of_def clock_toString_def digits_numeral digit_char_def char_of_def
      bit_Suc_0_iff js_append [symmetric])

lemma ex_manager_sessions: "sessions ex_manager = [(js ''S1'', ex_session)]"
  by (simp add: ex_manager_def getOrCreateSession_def SessionManager_def modify_session_def
      ex_host_def
      ex_session_def)

lemma ex_manager_fields:
  "prompts ex_manager = []" "timers ex_manager = []" "ws_sent ex_manager = []"
  by (simp_all add: ex_manager_def getOrCreateSession_def SessionManager_def modify_session_def
      ex_host_def)

subsection \<open>A prompt for a session without connections\<close>

text \<open>
  Claim C3. When a prompt is handled for a session whose set of connections is empty, the
  promise that \<open>handlePromptForSession\<close> returns is already rejected with the error "No
  connected clients to handle prompt"; the timer it had set is cleared; nothing is sent; and
  the session's prompt map has no entry under the prompt's id afterward (it is the map as
  it was before, without that id, so an empty map stays empty). Other sessions are untouched.
\<close>

theorem prompt_without_connections_fails:
  assumes "map_of (sessions m) sid = Some s" and "wsConnections s = []"
  shows "\<exists>m'. handlePromptForSession state throws now m sid params = (m', length (prompts m))
     \<and> prompts m' = prompts m @
          [Rejected (Error (js ''No connected clients to handle prompt''))]
     \<and> timers m' = timers m @ [None]
     \<and> ws_sent m' = ws_sent m
     \<and> map_of (sessions m') sid =
          Some (s\<lparr>promptResolvers := AList.delete (promptId_of sid now) (promptResolvers s)\<rparr>)
     \<and> map_of (AList.delete (promptId_of sid now) (promptResolvers s)) (promptId_of sid now)
          = None
     \<and> (promptResolvers s = [] \<longrightarrow> AList.delete (promptId_of sid now) (promptResolvers s) = [])
     \<and> (\<forall>k. k \<noteq> sid \<longrightarrow> map_of (sessions m') k = map_of (sessions m) k)"
proof -
  let ?m' = "fst (handlePromptForSession state throws now m sid params)"
  have r: "handlePromptForSession state throws now m sid params = (?m', length (prompts m))"
    using assms by (simp add: handlePromptForSession_def Let_def)
  have 1: "prompts ?m' = prompts m @
          [Rejected (Error (js ''No connected clients to handle prompt''))]"
    using assms by (simp add: handlePromptForSession_def Let_def settle_def)
  have 2: "timers ?m' = timers m @ [None]"
    using assms by (simp add: handlePromptForSession_def Let_def)
  have 3: "ws_sent ?m' = ws_sent m"
    using assms by (simp add: handlePromptForSession_def Let_def)
  have 4: "map_of (sessions ?m') k =
      (if k = sid then
         Some (s\<lparr>promptResolvers := AList.delete (promptId_of sid now) (promptResolvers s)\<rparr>)
       else map_of (sessions m) k)" for k
    using assms
    by (simp add: handlePromptForSession_def Let_def map_of_modify_session delete_update_same)
  have 5: "map_of (AList.delete (promptId_of sid now) (promptResolvers s)) (promptId_of sid now)
          = None"
    by (simp add: delete_conv')
  from r 1 2 3 4 5 show ?thesis by (intro exI [of _ ?m']) simp
qed

theorem prompt_without_connections_fails_witness:
  "map_of (sessions ex_manager) (js ''S1'') = Some ex_session \<and> wsConnections ex_session = [] \<and>
   (\<exists>m'. handlePromptForSession (\<lambda>ws. OPEN) (\<lambda>ws. False) 1700000000000 ex_manager (js ''S1'')
            None = (m', 0)
      \<and> prompts m' = [Rejected (Error (js ''No connected clients to handle prompt''))]
      \<and> timers m' = [None]
      \<and> map_of (sessions m') (js ''S1'') = Some ex_session)"
proof -
  have 1: "map_of (sessions ex_manager) (js ''S1'') = Some ex_session"
    by (simp add: ex_manager_sessions)
  have 2: "wsConnections ex_session = []" and 3: "promptResolvers ex_session = []"
    by (simp_all add: ex_session_def)
  from prompt_without_connections_fails [OF 1 2, of "\<lambda>ws. OPEN" "\<lambda>ws. False" 1700000000000 None]
  obtain m' where "handlePromptForSession (\<lambda>ws. OPEN) (\<lambda>ws. False) 1700000000000 ex_manager
       (js ''S1'') None = (m', length (prompts ex_manager))"
    and "prompts m' = prompts ex_manager @
          [Rejected (Error (js ''No connected clients to handle prompt''))]"
    and "timers m' = timers ex_manager @ [None]"
    and "map_of (sessions m') (js ''S1'') =
          Some (ex_session\<lparr>promptResolvers :=
                  AList.delete (promptId_of (js ''S1'') 1700000000000) (promptResolvers ex_session)\<rparr>)"
    by blast
  then show ?thesis using 1 2 by (simp add: ex_manager_fields 3 ex_session_def)
qed

subsection \<open>Responses to a prompt\<close>

text \<open>
  Claim C4. A response for a prompt id that is registered in the session resolves the promise
  of that entry with the response, clears its timer and deletes the entry. Any further
  response with the same prompt id, whatever it carries, changes nothing: the manager after
  the second response is the manager after the first.
\<close>

theorem prompt_response_first_wins:
  "(map_of (sessions m) sid = Some s \<and> map_of (promptResolvers s) promptId = Some r \<longrightarrow>
      prompts (handlePromptResponse m sid promptId response)
        = settle (settles r) (Fulfilled response) (prompts m)
    \<and> timers (handlePromptResponse m sid promptId response) = (timers m)[timeout r := None]
    \<and> map_of (sessions (handlePromptResponse m sid promptId response)) sid
        = Some (s\<lparr>promptResolvers := AList.delete promptId (promptResolvers s)\<rparr>)
    \<and> map_of (AList.delete promptId (promptResolvers s)) promptId = None)
   \<and> handlePromptResponse (handlePromptResponse m sid promptId response) sid promptId response'
        = handlePromptResponse m sid promptId response"
proof (intro conjI impI)
  assume h: "map_of (sessions m) sid = Some s \<and> map_of (promptResolvers s) promptId = Some r"
  then show "prompts (handlePromptResponse m sid promptId response)
        = settle (settles r) (Fulfilled response) (prompts m)"
    and "timers (handlePromptResponse m sid promptId response) = (timers m)[timeout r := None]"
    and "map_of (sessions (handlePromptResponse m sid promptId response)) sid
        = Some (s\<lparr>promptResolvers := AList.delete promptId (promptResolvers s)\<rparr>)"
    by (simp_all add: handlePromptResponse_def map_of_modify_session)
  show "map_of (AList.delete promptId (promptResolvers s)) promptId = None"
    by (simp add: delete_conv')
next
  let ?m' = "handlePromptResponse m sid promptId response"
  show "handlePromptResponse ?m' sid promptId response' = ?m'"
  proof (cases "map_of (sessions m) sid")
    case None
    then show ?thesis by (simp add: handlePromptResponse_def)
  next
    case (Some s)
    show ?thesis
    proof (cases "map_of (promptResolvers s) promptId")
      case None
      with Some show ?thesis by (simp add: handlePromptResponse_def)
    next
      case (Some r)
      with \<open>map_of (sessions m) sid = Some s\<close>
      have "map_of (sessions ?m') sid
              = Some (s\<lparr>promptResolvers := AList.delete promptId (promptResolvers s)\<rparr>)"
        by (simp add: handlePromptResponse_def map_of_modify_session)
      then show ?thesis
        by (simp add: handlePromptResponse_def [of ?m'] delete_conv')
    qed
  qed
qed

lemma ex_connected_sessions:
  "sessions ex_connected = [(js ''S1'', ex_session\<lparr>wsConnections := [7]\<rparr>)]"
  by (simp add: ex_connected_def addWebSocketConnection_def modify_session_def
      ex_manager_sessions ex_session_def)

lemma ex_connected_fields:
  "prompts ex_connected = []" "timers ex_connected = []" "ws_sent ex_connected = []"
  by (simp_all add: ex_connected_def addWebSocketConnection_def ex_manager_fields)

lemma ex_prompted_sessions:
  "sessions ex_prompted =
     [(js ''S1'', ex_session\<lparr>wsConnections := [7],
         promptResolvers := [(js ''S1-1700000000000'', \<lparr>settles = 0, timeout = 0\<rparr>)]\<rparr>)]"
  by (simp add: ex_prompted_def handlePromptForSession_def Let_def ex_connected_sessions
      ex_connected_fields ex_promptId modify_session_def ex_session_def)

lemma ex_prompted_fields:
  "prompts ex_prompted = [Pending]"
  "timers ex_prompted = [Some (PromptTimeout 0 (js ''S1-1700000000000'') 0)]"
  by (simp_all add: ex_prompted_def handlePromptForSession_def Let_def ex_connected_sessions
      ex_connected_fields ex_promptId modify_session_def ex_session_def)

theorem prompt_response_first_wins_witness:
  "map_of (sessions ex_prompted) (js ''S1'') =
     Some (ex_session\<lparr>wsConnections := [7],
         promptResolvers := [(js ''S1-1700000000000'', \<lparr>settles = 0, timeout = 0\<rparr>)]\<rparr>)
   \<and> prompts (handlePromptResponse ex_prompted (js ''S1'') (js ''S1-1700000000000'')
                (Some (JStr (js ''yes'')))) = [Fulfilled (Some (JStr (js ''yes'')))]
   \<and> timers (handlePromptResponse ex_prompted (js ''S1'') (js ''S1-1700000000000'')
                (Some (JStr (js ''yes'')))) = [None]
   \<and> handlePromptResponse
        (handlePromptResponse ex_prompted (js ''S1'') (js ''S1-1700000000000'')
           (Some (JStr (js ''yes''))))
        (js ''S1'') (js ''S1-1700000000000'') (Some (JStr (js ''no'')))
      = handlePromptResponse ex_prompted (js ''S1'') (js ''S1-1700000000000'')
          (Some (JStr (js ''yes'')))"
proof -
  let ?s = "ex_session\<lparr>wsConnections := [7],
         promptResolvers := [(js ''S1-1700000000000'', \<lparr>settles = 0, timeout = 0\<rparr>)]\<rparr>"
  have 1: "map_of (sessions ex_prompted) (js ''S1'') = Some ?s"
    by (simp add: ex_prompted_sessions)
  have 2: "map_of (promptResolvers ?s) (js ''S1-1700000000000'') = Some \<lparr>settles = 0, timeout = 0\<rparr>"
    by simp
  note t = prompt_response_first_wins [of ex_prompted "js ''S1''" ?s "js ''S1-1700000000000''"
      "\<lparr>settles = 0, timeout = 0\<rparr>" "Some (JStr (js ''yes''))" "Some (JStr (js ''no''))"]
  from t 1 2 show ?thesis
    by (simp add: ex_prompted_fields settle_def)
qed

subsection \<open>The idle reaper\<close>

lemma fold_reject_sessions:
  "sessions (fold (\<lambda>(promptId, r) m. reject (settles r) e (clearTimeout (timeout r) m)) rs m)
     = sessions m"
  by (induction rs arbitrary: m) (auto simp: split_def)

lemma map_of_destroySession:
  "map_of (sessions (destroySession m sid)) k =
     (if k = sid then None else map_of (sessions m) k)"
proof (cases "map_of (sessions m) sid")
  case None
  then show ?thesis by (simp add: destroySession_def)
next
  case (Some s)
  then show ?thesis
    by (simp add: destroySession_def Let_def delete_conv' map_of_modify_session
        fold_reject_sessions)
qed

lemma map_of_cleanup_loop:
  "map_of (sessions (cleanup_loop now ks m)) k =
     (case map_of (sessions m) k of
        None \<Rightarrow> None
      | Some s \<Rightarrow> if k \<in> set ks \<and> now - lastActivity s > IDLE_TIMEOUT \<and> wsConnections s = []
                  then None else Some s)"
proof (induction ks arbitrary: m)
  case Nil
  then show ?case by (simp split: option.splits)
next
  case (Cons sid ks)
  let ?m1 = "case map_of (sessions m) sid of
         None \<Rightarrow> m
       | Some s \<Rightarrow>
           if now - lastActivity s > IDLE_TIMEOUT \<and> length (wsConnections s) = 0
           then destroySession m sid else m"
  have m1: "map_of (sessions ?m1) k =
     (case map_of (sessions m) k of
        None \<Rightarrow> None
      | Some s \<Rightarrow> if k = sid \<and> now - lastActivity s > IDLE_TIMEOUT \<and> wsConnections s = []
                  then None else Some s)"
    by (auto simp: map_of_destroySession split: option.splits)
  have "map_of (sessions (cleanup_loop now (sid # ks) m)) k
          = map_of (sessions (cleanup_loop now ks ?m1)) k"
    by simp
  also have "\<dots> = (case map_of (sessions ?m1) k of
        None \<Rightarrow> None
      | Some s \<Rightarrow> if k \<in> set ks \<and> now - lastActivity s > IDLE_TIMEOUT \<and> wsConnections s = []
                  then None else Some s)"
    by (rule Cons.IH)
  also have "\<dots> = (case map_of (sessions m) k of
        None \<Rightarrow> None
      | Some s \<Rightarrow> if k \<in> set (sid # ks) \<and> now - lastActivity s > IDLE_TIMEOUT \<and> wsConnections s = []
                  then None else Some s)"
    unfolding m1 by (auto split: option.splits)
  finally show ?case .
qed

text \<open>
  Claim C5. After a run of the reaper at time \<open>now\<close>, a session is gone exactly when it was
  registered, its set of connections was empty and it had been idle for more than the
  threshold of 30 minutes (1800000 ms); every other session, in particular every session
  with a connection, is still registered and unchanged.
\<close>

theorem reaper_destroys_exactly_idle_unconnected:
  "map_of (sessions (cleanupIdleSessions now m)) sid =
     (case map_of (sessions m) sid of
        None \<Rightarrow> None
      | Some s \<Rightarrow> if now - lastActivity s > 1800000 \<and> wsConnections s = []
                  then None else Some s)"
proof -
  have "map_of (sessions m) sid = Some s \<Longrightarrow> sid \<in> set (map fst (sessions m))" for s
    by (metis map_of_eq_None_iff option.distinct(1) set_map)
  then show ?thesis
    unfolding cleanupIdleSessions_def map_of_cleanup_loop
    by (auto simp: IDLE_TIMEOUT_def split: option.splits)
qed

theorem reaper_destroys_exactly_idle_unconnected_witness:
  "map_of (sessions (cleanupIdleSessions 1801001 ex_manager)) (js ''S1'') = None
   \<and> map_of (sessions (cleanupIdleSessions 1801000 ex_manager)) (js ''S1'') = Some ex_session
   \<and> map_of (sessions (cleanupIdleSessions 9999999 ex_connected)) (js ''S1'')
       = Some (ex_session\<lparr>wsConnections := [7]\<rparr>)"
  using reaper_destroys_exactly_idle_unconnected [of 1801001 ex_manager "js ''S1''"]
    reaper_destroys_exactly_idle_unconnected [of 1801000 ex_manager "js ''S1''"]
    reaper_destroys_exactly_idle_unconnected [of 9999999 ex_connected "js ''S1''"]
  by (simp add: ex_manager_sessions ex_connected_sessions ex_session_def)

subsection \<open>Configuring a session\<close>

lemma dispatch_spawned:
  assumes "dispatch st msg = Inr st'"
  shows "spawned st' = spawned st"
proof (cases "is_response msg")
  case True
  with assms show ?thesis
    by (auto simp: dispatch_response split: option.splits json.splits sum.splits)
next
  case False
  with assms show ?thesis
    unfolding is_response_def dispatch_def Let_def
    by (auto split: sum.splits if_splits)
qed

lemma process_parts_spawned:
  "process_parts parse st parts = Inr st' \<Longrightarrow> spawned st' = spawned st"
proof (induction parts arbitrary: st)
  case Nil
  then show ?case by simp
next
  case (Cons raw rest)
  show ?case
  proof (cases "blank raw \<or> parse raw = None")
    case True
    with Cons.prems have "process_parts parse st rest = Inr st'" by (auto split: if_splits)
    then show ?thesis by (rule Cons.IH)
  next
    case False
    then obtain msg where m: "\<not> blank raw" "parse raw = Some msg" by auto
    with Cons.prems obtain s where s: "dispatch st msg = Inr s"
      and r: "process_parts parse s rest = Inr st'"
      by (cases "dispatch st msg") simp_all
    from Cons.IH [OF r] dispatch_spawned [OF s] show ?thesis by simp
  qed
qed

lemma on_data_spawned: "on_data parse st chunk = Inr st' \<Longrightarrow> spawned st' = spawned st"
  unfolding on_data_def processBuffer_def Let_def
  by (drule process_parts_spawned) simp

lemma sendRequest_spawned: "spawned (fst (sendRequest st uuid method params sch)) = spawned st"
  by (cases "child st") (simp_all add: sendRequest_def Let_def)

text \<open>While \<open>initialize()\<close> proceeds after its first suspension, no process is spawned.\<close>

lemma initialize_proceeds_spawned: "initialize_proceeds c c' \<Longrightarrow> spawned c' = spawned c"
proof (induction rule: initialize_proceeds.induct)
  case (suspended c)
  show ?case by simp
next
  case (data c c1 parse chunk c2)
  then show ?case by (simp add: on_data_spawned)
next
  case (exit c c1)
  then show ?case by (simp add: child_exit_def)
next
  case (answer c c1 rid result)
  then show ?case by (simp add: handleServerRequest_fulfilled_def)
next
  case (fail c c1 rid message)
  then show ?case by (simp add: handleServerRequest_rejected_def)
next
  case (list_tools c c1 uuid)
  then show ?case by (simp add: initialize_listTools_def sendRequest_spawned)
next
  case (complete c c1 p)
  then show ?case by (simp add: initialize_done_def split: promise.splits)
qed

text \<open>
  Claim C6, for configure calls that do not overlap. (i) A configure call for a session
  that has a client returns at once and changes nothing: no client is constructed and no
  process is spawned. (ii) A configure call for a session without a client constructs a
  client, which spawns the child process once before the call suspends in \<open>initialize()\<close>;
  the session has no client yet. However \<open>initialize()\<close> of that client then proceeds, the
  client has still spawned exactly one process; and when the call resumes while the
  session registered under the id is still the session object it has read, it stores the
  client in the session and starts the one login process, so that every configure call
  made then is a no-op by (i).
\<close>

theorem configure_after_completion_is_noop:
  "(map_of (sessions m) sid = Some s \<and> mcpClient s \<noteq> None \<longrightarrow>
      initializeMcpClient h uuid m sid cfg = (m, Returned))
   \<and> (map_of (sessions m) sid = Some s \<and> mcpClient s = None
        \<and> existsSync h (command (mcpOptions m)) \<longrightarrow>
      (\<exists>m1 c. initializeMcpClient h uuid m sid cfg = (m1, Awaiting (c, Some 0))
         \<and> length (spawned c) = 1
         \<and> getSessionMcpClient m1 sid = None
         \<and> (\<exists>s1. map_of (sessions m1) sid = Some s1 \<and> obj s1 = obj s)
         \<and> (\<forall>c' m2 s2 h' uuid' cfg'.
               initialize_proceeds c c' \<and> map_of (sessions m2) sid = Some s2 \<and> obj s2 = obj s \<longrightarrow>
               length (spawned c') = 1
               \<and> getSessionMcpClient
                   (fst (initializeMcpClient_resume h m2 sid (obj s) cfg c')) sid = Some c'
               \<and> length (logins (fst (initializeMcpClient_resume h m2 sid (obj s) cfg c')))
                   = Suc (length (logins m2))
               \<and> initializeMcpClient h' uuid'
                   (fst (initializeMcpClient_resume h m2 sid (obj s) cfg c')) sid cfg'
                   = (fst (initializeMcpClient_resume h m2 sid (obj s) cfg c'), Returned))))"
proof (intro conjI impI)
  assume "map_of (sessions m) sid = Some s \<and> mcpClient s \<noteq> None"
  then show "initializeMcpClient h uuid m sid cfg = (m, Returned)"
    by (auto simp: initializeMcpClient_def)
next
  assume a: "map_of (sessions m) sid = Some s \<and> mcpClient s = None
        \<and> existsSync h (command (mcpOptions m))"
  let ?m1 = "fst (initializeMcpClient h uuid m sid cfg)"
  have m1: "?m1 = modify_session sid (\<lambda>s. s\<lparr>pingoneConfig := Some cfg\<rparr>) m"
    using a by (simp add: initializeMcpClient_def Let_def split: sum.splits)
  obtain c where c: "initializeMcpClient h uuid m sid cfg = (?m1, Awaiting (c, Some 0))"
    and sp: "length (spawned c) = 1"
    using a
    by (simp add: initializeMcpClient_def Let_def initialize_def start_def StdioMcpClient_def
        sendRequest_def)
  have s1: "map_of (sessions ?m1) sid = Some (s\<lparr>pingoneConfig := Some cfg\<rparr>)"
    using a by (simp add: m1 map_of_modify_session)
  then have g1: "getSessionMcpClient ?m1 sid = None"
    using a by (simp add: getSessionMcpClient_def)
  from s1 have o1: "\<exists>s1. map_of (sessions ?m1) sid = Some s1 \<and> obj s1 = obj s" by simp
  have later: "length (spawned c') = 1
               \<and> getSessionMcpClient
                   (fst (initializeMcpClient_resume h m2 sid (obj s) cfg c')) sid = Some c'
               \<and> length (logins (fst (initializeMcpClient_resume h m2 sid (obj s) cfg c')))
                   = Suc (length (logins m2))
               \<and> initializeMcpClient h' uuid'
                   (fst (initializeMcpClient_resume h m2 sid (obj s) cfg c')) sid cfg'
                   = (fst (initializeMcpClient_resume h m2 sid (obj s) cfg c'), Returned)"
    if p: "initialize_proceeds c c' \<and> map_of (sessions m2) sid = Some s2 \<and> obj s2 = obj s"
    for c' m2 s2 h' uuid' cfg'
  proof -
    let ?m3 = "fst (initializeMcpClient_resume h m2 sid (obj s) cfg c')"
    from p have "spawned c' = spawned c" by (simp add: initialize_proceeds_spawned)
    with sp have 1: "length (spawned c') = 1" by simp
    from p have s3: "map_of (sessions ?m3) sid = Some (s2\<lparr>mcpClient := Some c'\<rparr>)"
      by (simp add: initializeMcpClient_resume_def triggerLogin_def map_of_modify_object)
    then have 2: "getSessionMcpClient ?m3 sid = Some c'"
      by (simp add: getSessionMcpClient_def)
    from s3 have 3: "initializeMcpClient h' uuid' ?m3 sid cfg' = (?m3, Returned)"
      by (simp add: initializeMcpClient_def [of h' uuid' ?m3])
    have "logins (modify_object (obj s) (\<lambda>s. s\<lparr>mcpClient := Some c'\<rparr>) m2) = logins m2"
      by (simp add: modify_object_def)
    with p have 4: "length (logins ?m3) = Suc (length (logins m2))"
      by (simp add: initializeMcpClient_resume_def triggerLogin_def map_of_modify_object)
    from 1 2 3 4 show ?thesis by simp
  qed
  from c sp g1 o1 later
  show "\<exists>m1 c. initializeMcpClient h uuid m sid cfg = (m1, Awaiting (c, Some 0))
         \<and> length (spawned c) = 1
         \<and> getSessionMcpClient m1 sid = None
         \<and> (\<exists>s1. map_of (sessions m1) sid = Some s1 \<and> obj s1 = obj s)
         \<and> (\<forall>c' m2 s2 h' uuid' cfg'.
               initialize_proceeds c c' \<and> map_of (sessions m2) sid = Some s2 \<and> obj s2 = obj s \<longrightarrow>
               length (spawned c') = 1
               \<and> getSessionMcpClient
                   (fst (initializeMcpClient_resume h m2 sid (obj s) cfg c')) sid = Some c'
               \<and> length (logins (fst (initializeMcpClient_resume h m2 sid (obj s) cfg c')))
                   = Suc (length (logins m2))
               \<and> initializeMcpClient h' uuid'
                   (fst (initializeMcpClient_resume h m2 sid (obj s) cfg c')) sid cfg'
                   = (fst (initializeMcpClient_resume h m2 sid (obj s) cfg c'), Returned))"
    by blast
qed

lemma ex_manager_options: "mcpOptions ex_manager = ex_options"
  by (simp add: ex_manager_def getOrCreateSession_def SessionManager_def modify_session_def
      ex_host_def)

theorem configure_after_completion_is_noop_witness:
  "map_of (sessions ex_manager) (js ''S1'') = Some ex_session \<and> mcpClient ex_session = None
   \<and> existsSync ex_host (command (mcpOptions ex_manager)) \<and> obj ex_session = 0
   \<and> (\<exists>m1 c s1. ex_first = (m1, Awaiting (c, Some 0)) \<and> length (spawned c) = 1
         \<and> map_of (sessions m1) (js ''S1'') = Some s1 \<and> obj s1 = 0
         \<and> initialize_proceeds c (initialize_done 1 (fst (initialize_listTools (js ''t'') c)))
         \<and> length (spawned (initialize_done 1 (fst (initialize_listTools (js ''t'') c)))) = 1
         \<and> getSessionMcpClient
             (fst (initializeMcpClient_resume ex_host m1 (js ''S1'') 0 ex_config
                     (initialize_done 1 (fst (initialize_listTools (js ''t'') c)))))
             (js ''S1'')
             = Some (initialize_done 1 (fst (initialize_listTools (js ''t'') c)))
         \<and> initializeMcpClient ex_host (js ''u2'')
             (fst (initializeMcpClient_resume ex_host m1 (js ''S1'') 0 ex_config
                     (initialize_done 1 (fst (initialize_listTools (js ''t'') c)))))
             (js ''S1'') ex_config
            = (fst (initializeMcpClient_resume ex_host m1 (js ''S1'') 0 ex_config
                     (initialize_done 1 (fst (initialize_listTools (js ''t'') c)))), Returned))"
proof -
  have 1: "map_of (sessions ex_manager) (js ''S1'') = Some ex_session \<and> mcpClient ex_session = None
        \<and> existsSync ex_host (command (mcpOptions ex_manager))"
    by (simp add: ex_manager_sessions ex_session_def ex_host_def)
  have o: "obj ex_session = 0" by (simp add: ex_session_def)
  from configure_after_completion_is_noop [of ex_manager "js ''S1''" ex_session ex_host
      "js ''u1''" ex_config, THEN conjunct2] 1
  obtain m1 c s1 where f: "ex_first = (m1, Awaiting (c, Some 0))" "length (spawned c) = 1"
    "map_of (sessions m1) (js ''S1'') = Some s1" "obj s1 = 0"
    and all: "\<And>c' m2 s2 h' uuid' cfg'.
               initialize_proceeds c c' \<and> map_of (sessions m2) (js ''S1'') = Some s2
                 \<and> obj s2 = 0 \<Longrightarrow>
               length (spawned c') = 1
               \<and> getSessionMcpClient
                   (fst (initializeMcpClient_resume ex_host m2 (js ''S1'') 0 ex_config c'))
                   (js ''S1'') = Some c'
               \<and> length (logins
                     (fst (initializeMcpClient_resume ex_host m2 (js ''S1'') 0 ex_config c')))
                   = Suc (length (logins m2))
               \<and> initializeMcpClient h' uuid'
                   (fst (initializeMcpClient_resume ex_host m2 (js ''S1'') 0 ex_config c'))
                   (js ''S1'') cfg'
                   = (fst (initializeMcpClient_resume ex_host m2 (js ''S1'') 0 ex_config c'),
                      Returned)"
    unfolding ex_first_def o by blast
  let ?c' = "initialize_done 1 (fst (initialize_listTools (js ''t'') c))"
  have p: "initialize_proceeds c ?c'"
    by (intro initialize_proceeds.complete initialize_proceeds.list_tools
        initialize_proceeds.suspended)
  from all [of ?c' m1 s1 ex_host "js ''u2''" ex_config] p f(3,4)
  have "length (spawned ?c') = 1
      \<and> getSessionMcpClient
          (fst (initializeMcpClient_resume ex_host m1 (js ''S1'') 0 ex_config ?c')) (js ''S1'')
          = Some ?c'
      \<and> initializeMcpClient ex_host (js ''u2'')
          (fst (initializeMcpClient_resume ex_host m1 (js ''S1'') 0 ex_config ?c'))
          (js ''S1'') ex_config
          = (fst (initializeMcpClient_resume ex_host m1 (js ''S1'') 0 ex_config ?c'), Returned)"
    by blast
  with 1 o f p show ?thesis by blast
qed

text \<open>
  Claim C6 as stated fails for a second call made while the first is still waiting for
  \<open>initialize()\<close>: the session has no client yet, so the second call constructs a client and
  spawns a child process of its own.
\<close>

theorem configure_twice_spawns_twice:
  "spawns_of (snd ex_first) = 1 \<and> getSessionMcpClient (fst ex_first) (js ''S1'') = None
   \<and> spawns_of (snd ex_second) = 1 \<and> snd ex_second \<noteq> Returned"
proof -
  have f: "fst ex_first = modify_session (js ''S1'') (\<lambda>s. s\<lparr>pingoneConfig := Some ex_config\<rparr>) ex_manager"
    and 1: "spawns_of (snd ex_first) = 1"
    by (simp_all add: ex_first_def initializeMcpClient_def Let_def ex_manager_sessions
        ex_session_def initialize_def start_def StdioMcpClient_def ex_host_def sendRequest_def
        spawns_of_def)
  have s: "sessions (fst ex_first) = [(js ''S1'', ex_session\<lparr>pingoneConfig := Some ex_config\<rparr>)]"
    by (simp add: f modify_session_def ex_manager_sessions)
  have 2: "getSessionMcpClient (fst ex_first) (js ''S1'') = None"
    by (simp add: getSessionMcpClient_def s ex_session_def)
  have 3: "spawns_of (snd ex_second) = 1 \<and> snd ex_second \<noteq> Returned"
    by (simp add: ex_second_def initializeMcpClient_def Let_def s
        ex_session_def initialize_def start_def StdioMcpClient_def ex_host_def sendRequest_def
        spawns_of_def)
  from 1 2 3 show ?thesis by simp
qed

subsection \<open>Prompt ids\<close>

lemma digit_char_inj: "a < 10 \<Longrightarrow> b < 10 \<Longrightarrow> digit_char a = digit_char b \<Longrightarrow> a = b"
proof -
  assume a: "a < 10" and b: "b < 10" and e: "digit_char a = digit_char b"
  from e have "(of_char (char_of (48 + a)) :: nat) = of_char (char_of (48 + b))"
    by (simp add: digit_char_def)
  then have "(48 + a) mod 256 = (48 + b) mod 256" by simp
  with a b show "a = b" by simp
qed

lemma digit_char_not_minus: "d < 10 \<Longrightarrow> digit_char d \<noteq> CHR ''-''"
proof
  assume d: "d < 10" and e: "digit_char d = CHR ''-''"
  from e have "(of_char (char_of (48 + d)) :: nat) = of_char (CHR ''-'')"
    by (simp add: digit_char_def)
  then have "(48 + d) mod 256 = 45" by simp
  with d show False by simp
qed

lemma digits_not_Nil: "digits n \<noteq> []"
  by (subst digits.simps) simp

lemma digits_long: "10 \<le> n \<Longrightarrow> 2 \<le> length (digits n)"
  using digits_not_Nil [of "n div 10"]
  by (subst digits.simps) (cases "digits (n div 10)"; simp)

lemma digits_inj: "digits n = digits m \<Longrightarrow> n = m"
proof (induction n arbitrary: m rule: digits.induct)
  case (1 n)
  show ?case
  proof (cases "n < 10")
    case True
    then have n: "digits n = [digit_char n]" by (subst digits.simps) simp
    show ?thesis
    proof (cases "m < 10")
      case True
      then have "digits m = [digit_char m]" by (subst digits.simps) simp
      with n "1.prems" \<open>n < 10\<close> True show ?thesis by (simp add: digit_char_inj)
    next
      case False
      then have "2 \<le> length (digits m)" by (simp add: digits_long)
      with n "1.prems" show ?thesis by simp
    qed
  next
    case False
    then have n: "digits n = digits (n div 10) @ [digit_char (n mod 10)]"
      by (subst digits.simps) simp
    show ?thesis
    proof (cases "m < 10")
      case True
      then have "digits m = [digit_char m]" by (subst digits.simps) simp
      moreover from False have "2 \<le> length (digits n)" by (simp add: digits_long)
      ultimately show ?thesis using "1.prems" by simp
    next
      case m: False
      then have "digits m = digits (m div 10) @ [digit_char (m mod 10)]"
        by (subst digits.simps) simp
      with n "1.prems" have d: "digits (n div 10) = digits (m div 10)"
        and l: "digit_char (n mod 10) = digit_char (m mod 10)" by simp_all
      from "1.IH" [OF False d] have "n div 10 = m div 10" .
      moreover from l have "n mod 10 = m mod 10" by (simp add: digit_char_inj)
      ultimately show ?thesis by (metis div_mult_mod_eq)
    qed
  qed
qed

lemma digits_hd: "hd (digits n) \<noteq> CHR ''-''"
proof (induction n rule: digits.induct)
  case (1 n)
  show ?case
  proof (cases "n < 10")
    case True
    then show ?thesis by (subst digits.simps) (simp add: digit_char_not_minus)
  next
    case False
    with "1.IH" digits_not_Nil [of "n div 10"] show ?thesis
      by (subst digits.simps) simp
  qed
qed

lemma clock_toString_inj: "clock_toString n = clock_toString m \<Longrightarrow> n = m"
proof -
  assume "clock_toString n = clock_toString m"
  then have e: "(if n < 0 then CHR ''-'' # digits (nat (- n)) else digits (nat n))
              = (if m < 0 then CHR ''-'' # digits (nat (- m)) else digits (nat m))"
    by (simp add: clock_toString_def)
  have neq: "CHR ''-'' # xs \<noteq> digits k" for xs k
    using digits_hd [of k] digits_not_Nil [of k] by (cases "digits k") auto
  show "n = m"
  proof (cases "n < 0")
    case True
    show ?thesis
    proof (cases "m < 0")
      case m: True
      with True e have "digits (nat (- n)) = digits (nat (- m))" by simp
      then have "nat (- n) = nat (- m)" by (rule digits_inj)
      with True m show ?thesis by simp
    next
      case False
      with True e neq show ?thesis by auto
    qed
  next
    case False
    show ?thesis
    proof (cases "m < 0")
      case True
      with False e neq [of "digits (nat (- m))" "nat n"] show ?thesis by auto
    next
      case m: False
      with False e have "digits (nat n) = digits (nat m)" by simp
      then have "nat n = nat m" by (rule digits_inj)
      with False m show ?thesis by simp
    qed
  qed
qed

text \<open>Within a session, two prompt ids are equal exactly when the clock readings are.\<close>

lemma promptId_of_eq_iff: "promptId_of sid now = promptId_of sid now' \<longleftrightarrow> now = now'"
  by (auto simp: promptId_of_def dest: clock_toString_inj)

text \<open>
  Claim C7 fails on the code: the prompt id is the session id followed by the clock reading
  in milliseconds, so two prompts of one session handled in the same millisecond get the
  same id. The second entry replaces the first in the prompt map; a response with that id
  resolves the second promise only, and the first stays pending.
\<close>

theorem prompt_ids_collide:
  "snd (handlePromptForSession (\<lambda>ws. OPEN) (\<lambda>ws. False) 1700000000000 ex_connected (js ''S1'')
          None) = 0
   \<and> snd (handlePromptForSession (\<lambda>ws. OPEN) (\<lambda>ws. False) 1700000000000 ex_prompted (js ''S1'')
          None) = 1
   \<and> prompts ex_prompted_again = [Pending, Pending]
   \<and> sessions ex_prompted_again =
       [(js ''S1'', ex_session\<lparr>wsConnections := [7],
           promptResolvers := [(js ''S1-1700000000000'', \<lparr>settles = 1, timeout = 1\<rparr>)]\<rparr>)]
   \<and> prompts (handlePromptResponse ex_prompted_again (js ''S1'') (js ''S1-1700000000000'')
                (Some (JStr (js ''yes'')))) = [Pending, Fulfilled (Some (JStr (js ''yes'')))]"
proof -
  have 1: "snd (handlePromptForSession (\<lambda>ws. OPEN) (\<lambda>ws. False) 1700000000000 ex_connected
                 (js ''S1'') None) = 0"
    by (simp add: handlePromptForSession_def Let_def ex_connected_sessions ex_connected_fields
        split: prod.splits)
  have 2: "snd (handlePromptForSession (\<lambda>ws. OPEN) (\<lambda>ws. False) 1700000000000 ex_prompted
                 (js ''S1'') None) = 1"
    by (simp add: handlePromptForSession_def Let_def ex_prompted_sessions ex_prompted_fields
        split: prod.splits)
  have 3: "prompts ex_prompted_again = [Pending, Pending]"
    and 4: "sessions ex_prompted_again =
       [(js ''S1'', ex_session\<lparr>wsConnections := [7],
           promptResolvers := [(js ''S1-1700000000000'', \<lparr>settles = 1, timeout = 1\<rparr>)]\<rparr>)]"
    by (simp_all add: ex_prompted_again_def handlePromptForSession_def Let_def
        ex_prompted_sessions ex_prompted_fields ex_promptId modify_session_def ex_session_def)
  have 5: "prompts (handlePromptResponse ex_prompted_again (js ''S1'') (js ''S1-1700000000000'')
                (Some (JStr (js ''yes'')))) = [Pending, Fulfilled (Some (JStr (js ''yes'')))]"
    by (simp add: handlePromptResponse_def 3 4 settle_def)
  from 1 2 3 4 5 show ?thesis by simp
qed

end
